theory Spec2Isabelle
  imports Main
begin

section \<open>Constants of \<^verbatim>\<open>proxy.go\<close>\<close>

text \<open>
  A Go \<^verbatim>\<open>error\<close> value is modelled by the message its \<^verbatim>\<open>Error()\<close> method returns;
  the nil error is \<open>None\<close> of \<open>error option\<close>.
\<close>

datatype error = Error (errorMsg: string)

definition ErrPrefixRequestCancel :: string where
  "ErrPrefixRequestCancel = ''request canceled''"

definition ErrNoServer :: error where
  "ErrNoServer = Error ''has no server''"

definition HeaderContentType :: string where
  "HeaderContentType = ''Content-Type''"

definition MergeContentType :: string where
  "MergeContentType = ''application/json; charset=utf-8''"

definition MergeRemoveHeaders :: "string list" where
  "MergeRemoveHeaders = [''Content-Length'', ''Content-Type'', ''Date'']"

definition StatusOK :: int where
  "StatusOK = 200"

definition StatusInternalServerError :: int where
  "StatusInternalServerError = 500"

definition StatusServiceUnavailable :: int where
  "StatusServiceUnavailable = 503"

text \<open>\<^verbatim>\<open>strings.HasPrefix(s, prefix)\<close>.\<close>

definition HasPrefix :: "string \<Rightarrow> string \<Rightarrow> bool" where
  "HasPrefix s pre = (take (length pre) s = pre)"

section \<open>Requests, responses and header collections\<close>

text \<open>
  The HTTP library's header collection is a sequence of name/value pairs, names in the
  library's canonical spelling. The three operations the handler uses:
  \<^item> \<open>Del\<close> removes every pair with the given name;
  \<^item> \<open>CopyTo\<close> is fasthttp's \<^verbatim>\<open>ResponseHeader.CopyTo(dst)\<close>, which resets \<open>dst\<close> and then
    copies the source into it, so the destination ends up equal to the source;
  \<^item> \<open>Add\<close> appends one pair and keeps the pairs already there.

  The library keeps some headers (the content type among them) in slots of their own,
  with defaults when they are empty; here every header is an ordinary pair.
\<close>

type_synonym header = "(string \<times> string) list"

definition Del :: "string \<Rightarrow> header \<Rightarrow> header" where
  "Del k h = filter (\<lambda>kv. fst kv \<noteq> k) h"

definition CopyTo :: "header \<Rightarrow> header \<Rightarrow> header" where
  "CopyTo src dst = src"

definition Add :: "string \<Rightarrow> string \<Rightarrow> header \<Rightarrow> header" where
  "Add k v h = h @ [(k, v)]"

text \<open>
  A request, with the path and the query string (empty, or beginning with the \<^verbatim>\<open>?\<close>) of
  its request URI held apart. The three setters store what they are given:
  \<open>SetRequestURI\<close> the two parts of its argument, \<open>SetHost\<close> and \<open>SetPath\<close> their argument.
  What the library makes of a stored value when it parses the URI and writes the request
  line (normalising, escaping) is the library's and is not modelled.
\<close>

record request =
  Method :: string
  Host :: string
  Path :: string
  QueryString :: string
  ReqHeader :: header
  ReqBody :: string

definition SetRequestURI :: "string \<Rightarrow> request \<Rightarrow> request" where
  "SetRequestURI uri r =
     r\<lparr>Path := takeWhile (\<lambda>c. c \<noteq> CHR ''?'') uri,
       QueryString := dropWhile (\<lambda>c. c \<noteq> CHR ''?'') uri\<rparr>"

definition SetHost :: "string \<Rightarrow> request \<Rightarrow> request" where
  "SetHost h r = r\<lparr>Host := h\<rparr>"

definition SetPath :: "string \<Rightarrow> request \<Rightarrow> request" where
  "SetPath p r = r\<lparr>Path := p\<rparr>"

record response =
  StatusCode :: int
  Header :: header
  Body :: string

text \<open>
  \<^verbatim>\<open>fasthttp.RequestCtx\<close>: the inbound request and the response under construction for the
  caller. \<^verbatim>\<open>Write\<close> and \<^verbatim>\<open>WriteString\<close> append to the response body. \<open>SetStatusCode\<close>
  stores the code it is given (the library reads a stored 0 back as 200).
\<close>

record requestCtx =
  Request :: request
  Response :: response

definition SetStatusCode :: "int \<Rightarrow> requestCtx \<Rightarrow> requestCtx" where
  "SetStatusCode code ctx = ctx\<lparr>Response := (Response ctx)\<lparr>StatusCode := code\<rparr>\<rparr>"

definition WriteString :: "string \<Rightarrow> requestCtx \<Rightarrow> requestCtx" where
  "WriteString s ctx = ctx\<lparr>Response := (Response ctx)\<lparr>Body := Body (Response ctx) @ s\<rparr>\<rparr>"

definition Write :: "string \<Rightarrow> requestCtx \<Rightarrow> requestCtx" where
  "Write bs ctx = WriteString bs ctx"

section \<open>Candidates (\<^verbatim>\<open>model.RouteResult\<close>)\<close>

record server =
  Addr :: string

record node =
  AttrName :: string
  URL :: string

text \<open>
  The fields of \<^verbatim>\<open>model.RouteResult\<close> that \<^verbatim>\<open>proxy.go\<close> reads and writes. \<open>Svr\<close>, \<open>Node\<close>
  and \<open>Res\<close> are pointers (\<open>None\<close> is nil), \<open>Err\<close> is an error (\<open>None\<close> is nil). The methods
  \<^verbatim>\<open>NeedRewrite()\<close> and \<^verbatim>\<open>GetRealPath(req)\<close> belong to the route model and are taken as
  data of the candidate. \<open>Released\<close> counts the calls of \<^verbatim>\<open>Release()\<close> on the candidate.
\<close>

record routeResult =
  Svr :: "server option"
  Node :: "node option"
  Merge :: bool
  Err :: "error option"
  Code :: int
  Res :: "response option"
  NeedRewrite :: bool
  GetRealPath :: "request \<Rightarrow> string"
  Released :: nat

definition Release :: "routeResult \<Rightarrow> routeResult" where
  "Release r = r\<lparr>Released := Released r + 1\<rparr>"

section \<open>Filters\<close>

text \<open>
  \<^verbatim>\<open>filterContext\<close>, as \<^verbatim>\<open>doProxy\<close> builds it. \<open>result\<close> is the candidate the source reaches
  both as \<^verbatim>\<open>result\<close> and as \<^verbatim>\<open>c.result\<close> (one pointer). The route table reference \<^verbatim>\<open>rb\<close>
  is not read by the code under study and is left out.
\<close>

record filterContext =
  ctx :: requestCtx
  outreq :: request
  result :: routeResult
  runtimeVar :: "string \<rightharpoonup> string"
  startAt :: int
  endAt :: int

text \<open>
  Modelled from the spec: the \<^verbatim>\<open>Filter\<close> interface is not part of \<^verbatim>\<open>proxy.go\<close>. A filter,
  given the context, either allows continuation or stops the chain with a status code and
  an error. Of the context it may change the outbound request and the variable bag; the
  candidate is written by the dispatcher only.
\<close>

datatype verdict = Continue | Stop int error

record filter =
  Name :: string
  Pre :: "filterContext \<Rightarrow> verdict \<times> request \<times> (string \<rightharpoonup> string)"
  Post :: "filterContext \<Rightarrow> verdict \<times> request \<times> (string \<rightharpoonup> string)"
  PostErr :: "filterContext \<Rightarrow> request \<times> (string \<rightharpoonup> string)"

text \<open>
  What a dispatch did, in order: which filter methods ran and which backend call was made
  (with the outbound request and the address it was made with).
\<close>

datatype event =
  PreFilter string
| BackendCall request string
| PostFilter string
| PostErrFilter string

definition isBackendCall :: "event \<Rightarrow> bool" where
  "isBackendCall e = (case e of BackendCall _ _ \<Rightarrow> True | _ \<Rightarrow> False)"

definition isPostErrFilter :: "event \<Rightarrow> bool" where
  "isPostErrFilter e = (case e of PostErrFilter _ \<Rightarrow> True | _ \<Rightarrow> False)"

definition isPostFilter :: "event \<Rightarrow> bool" where
  "isPostFilter e = (case e of PostFilter _ \<Rightarrow> True | _ \<Rightarrow> False)"

definition applyFilter :: "filterContext \<Rightarrow> request \<times> (string \<rightharpoonup> string) \<Rightarrow> filterContext" where
  "applyFilter c upd = c\<lparr>outreq := fst upd, runtimeVar := snd upd\<rparr>"

text \<open>
  Modelled from the spec: \<^verbatim>\<open>doPreFilters\<close>, \<^verbatim>\<open>doPostFilters\<close> and \<^verbatim>\<open>doPostErrFilters\<close> are
  not part of \<^verbatim>\<open>proxy.go\<close>. The filters run in registration order; the first one that stops
  ends the chain and its name, status code and error are the result (filter name, status
  code, error); when none stops the error is nil. The post-error chain runs every filter
  and returns nothing.
\<close>

fun doPreFilters ::
  "filter list \<Rightarrow> filterContext \<Rightarrow> (string \<times> int \<times> error option) \<times> filterContext \<times> event list" where
  "doPreFilters [] c = (([], StatusOK, None), c, [])"
| "doPreFilters (f # fs) c =
     (case Pre f c of
        (Stop code err, upd) \<Rightarrow>
          ((Name f, code, Some err), applyFilter c upd, [PreFilter (Name f)])
      | (Continue, upd) \<Rightarrow>
          (case doPreFilters fs (applyFilter c upd) of
             (r, c', evs) \<Rightarrow> (r, c', PreFilter (Name f) # evs)))"

fun doPostFilters ::
  "filter list \<Rightarrow> filterContext \<Rightarrow> (string \<times> int \<times> error option) \<times> filterContext \<times> event list" where
  "doPostFilters [] c = (([], StatusOK, None), c, [])"
| "doPostFilters (f # fs) c =
     (case Post f c of
        (Stop code err, upd) \<Rightarrow>
          ((Name f, code, Some err), applyFilter c upd, [PostFilter (Name f)])
      | (Continue, upd) \<Rightarrow>
          (case doPostFilters fs (applyFilter c upd) of
             (r, c', evs) \<Rightarrow> (r, c', PostFilter (Name f) # evs)))"

fun doPostErrFilters :: "filter list \<Rightarrow> filterContext \<Rightarrow> filterContext \<times> event list" where
  "doPostErrFilters [] c = (c, [])"
| "doPostErrFilters (f # fs) c =
     (case doPostErrFilters fs (applyFilter c (PostErr f c)) of
        (c', evs) \<Rightarrow> (c', PostErrFilter (Name f) # evs))"

section \<open>The proxy and the dispatch of one candidate\<close>

text \<open>
  What one backend call through \<^verbatim>\<open>fastHTTPClient.Do\<close> yields: the response pointer, the
  error, and the two readings of \<^verbatim>\<open>time.Now().UnixNano()\<close> taken around the call.
\<close>

record backendCall =
  callRes :: "response option"
  callErr :: "error option"
  callStart :: int
  callEnd :: int

record proxy =
  filters :: "filter list"
  fastHTTPClientDo :: "request \<Rightarrow> string \<Rightarrow> backendCall"

datatype panic = NilDereference

text \<open>
  Modelled from the spec: \<^verbatim>\<open>copyRequest\<close> is not part of \<^verbatim>\<open>proxy.go\<close>; the outbound
  request is built from the inbound one with method, headers and body copied.
\<close>

definition copyRequest :: "request \<Rightarrow> request" where
  "copyRequest req = req"

text \<open>Lines 165 to 181 of \<^verbatim>\<open>doProxy\<close>: the outbound request and the change of its URL.\<close>

definition rewriteOutreq :: "requestCtx \<Rightarrow> routeResult \<Rightarrow> server \<Rightarrow> request" where
  "rewriteOutreq cx r svr =
     (let outreq = copyRequest (Request cx) in
      if NeedRewrite r then
        (let realPath = GetRealPath r (Request cx) in
         if realPath \<noteq> [] then SetHost (Addr svr) (SetRequestURI realPath outreq)
         else outreq)
      else
        (case Node r of
           Some n \<Rightarrow> SetPath (URL n) outreq
         | None \<Rightarrow> outreq))"

text \<open>Lines 183 to 189 of \<^verbatim>\<open>doProxy\<close>: the fresh context of one dispatch.\<close>

definition newFilterContext :: "requestCtx \<Rightarrow> request \<Rightarrow> routeResult \<Rightarrow> filterContext" where
  "newFilterContext cx oreq r =
     \<lparr>ctx = cx, outreq = oreq, result = r, runtimeVar = Map.empty, startAt = 0, endAt = 0\<rparr>"

text \<open>
  Lines 204 to 236 of \<^verbatim>\<open>doProxy\<close>: what happens once the backend call has returned.
  \<^verbatim>\<open>res.StatusCode()\<close> is evaluated only when \<^verbatim>\<open>err\<close> is nil, and panics on a nil \<^verbatim>\<open>res\<close>.
\<close>

definition afterBackend ::
  "proxy \<Rightarrow> filterContext \<Rightarrow> backendCall \<Rightarrow> panic + (routeResult \<times> event list)" where
  "afterBackend p c0 bc =
     (let c = c0\<lparr>result := (result c0)\<lparr>Res := callRes bc\<rparr>\<rparr> in
      case callErr bc of
        Some err \<Rightarrow>
          (let resCode = StatusServiceUnavailable in
           if \<not> HasPrefix (errorMsg err) ErrPrefixRequestCancel then
             (case doPostErrFilters (filters p) c of
                (c', evs) \<Rightarrow> Inr ((result c')\<lparr>Err := Some err, Code := resCode\<rparr>, evs))
           else Inr ((result c)\<lparr>Err := Some err, Code := resCode\<rparr>, []))
      | None \<Rightarrow>
          (case callRes bc of
             None \<Rightarrow> Inl NilDereference
           | Some res \<Rightarrow>
               if StatusCode res \<ge> StatusInternalServerError then
                 (let resCode = StatusCode res in
                  case doPostErrFilters (filters p) c of
                    (c', evs) \<Rightarrow> Inr ((result c')\<lparr>Err := None, Code := resCode\<rparr>, evs))
               else
                 (case doPostFilters (filters p) c of
                    ((filterName, code, Some err), c', evs) \<Rightarrow>
                      Inr ((result c')\<lparr>Err := Some err, Code := code\<rparr>, evs)
                  | ((filterName, code, None), c', evs) \<Rightarrow> Inr (result c', evs))))"

text \<open>
  The context as the post-success and post-error chains get it (lines 200 to 204): the one
  the pre-filters left, with the two clock readings and with the response of the backend
  call stored in the candidate.
\<close>

definition postContext :: "filterContext \<Rightarrow> backendCall \<Rightarrow> filterContext" where
  "postContext c1 bc =
     c1\<lparr>startAt := callStart bc, endAt := callEnd bc, result := (result c1)\<lparr>Res := callRes bc\<rparr>\<rparr>"

text \<open>
  \<^verbatim>\<open>doProxy\<close>. The wait group only signals completion and is part of the join below.
  The result is the candidate as the dispatch leaves it, with the events of the dispatch.
\<close>

definition doProxy ::
  "proxy \<Rightarrow> requestCtx \<Rightarrow> routeResult \<Rightarrow> panic + (routeResult \<times> event list)" where
  "doProxy p cx r =
     (case Svr r of
        None \<Rightarrow> Inr (r\<lparr>Err := Some ErrNoServer, Code := StatusServiceUnavailable\<rparr>, [])
      | Some svr \<Rightarrow>
          (let outreq0 = rewriteOutreq cx r svr;
               c = newFilterContext cx outreq0 r
           in case doPreFilters (filters p) c of
                ((filterName, code, Some err), c1, evs) \<Rightarrow>
                  Inr ((result c1)\<lparr>Err := Some err, Code := code\<rparr>, evs)
              | ((filterName, code, None), c1, evs) \<Rightarrow>
                  (let bc = fastHTTPClientDo p (outreq c1) (Addr svr);
                       c2 = c1\<lparr>startAt := callStart bc, endAt := callEnd bc\<rparr>
                   in case afterBackend p c2 bc of
                        Inl pn \<Rightarrow> Inl pn
                      | Inr (r', evs') \<Rightarrow>
                          Inr (r', evs @ BackendCall (outreq c1) (Addr svr) # evs'))))"

section \<open>The handler: fan-out, join and merge\<close>

text \<open>
  The fan-out of lines 94 to 106. Each candidate is marked as part of a merge and handed to
  its own \<^verbatim>\<open>doProxy\<close>; the handler goes on only when all of them have returned. Every
  dispatch writes its own candidate only, so the join is the list of the dispatched
  candidates, in the order of the candidates. A panic in a dispatch ends the process.
\<close>

fun dispatchAll :: "proxy \<Rightarrow> requestCtx \<Rightarrow> routeResult list \<Rightarrow> panic + routeResult list" where
  "dispatchAll p cx [] = Inr []"
| "dispatchAll p cx (r # rs) =
     (case doProxy p cx (r\<lparr>Merge := True\<rparr>) of
        Inl pn \<Rightarrow> Inl pn
      | Inr (r', evs) \<Rightarrow>
          (case dispatchAll p cx rs of
             Inl pn \<Rightarrow> Inl pn
           | Inr rs' \<Rightarrow> Inr (r' # rs')))"

definition writeResult :: "requestCtx \<Rightarrow> response \<Rightarrow> requestCtx" where
  "writeResult cx res = Write (Body res) (SetStatusCode (StatusCode res) cx)"

text \<open>
  The loop of lines 111 to 123. \<open>Some\<close> is the handler's return from inside the loop, with
  the response and the candidates as they are then; \<open>None\<close> is the loop running to its end.
\<close>

fun scanResults ::
  "bool \<Rightarrow> requestCtx \<Rightarrow> routeResult list \<Rightarrow> panic + (requestCtx \<times> routeResult list) option" where
  "scanResults merge cx [] = Inr None"
| "scanResults merge cx (r # rs) =
     (case Err r of
        Some e \<Rightarrow> Inr (Some (SetStatusCode (Code r) cx, Release r # rs))
      | None \<Rightarrow>
          if \<not> merge then
            (case Res r of
               None \<Rightarrow> Inl NilDereference
             | Some res \<Rightarrow> Inr (Some (writeResult cx res, Release r # rs)))
          else
            (case scanResults merge cx rs of
               Inl pn \<Rightarrow> Inl pn
             | Inr None \<Rightarrow> Inr None
             | Inr (Some (cx', rs')) \<Rightarrow> Inr (Some (cx', r # rs'))))"

text \<open>The inner loop of lines 126 to 128, on one header collection.\<close>

definition removeMergeHeaders :: "header \<Rightarrow> header" where
  "removeMergeHeaders h = foldl (\<lambda>acc k. Del k acc) h MergeRemoveHeaders"

text \<open>The loop of lines 125 to 130.\<close>

fun copyHeaders :: "requestCtx \<Rightarrow> routeResult list \<Rightarrow> panic + (requestCtx \<times> routeResult list)" where
  "copyHeaders cx [] = Inr (cx, [])"
| "copyHeaders cx (r # rs) =
     (case Res r of
        None \<Rightarrow> Inl NilDereference
      | Some res \<Rightarrow>
          (let res' = res\<lparr>Header := removeMergeHeaders (Header res)\<rparr>;
               cx' = cx\<lparr>Response := (Response cx)
                        \<lparr>Header := CopyTo (Header res') (Header (Response cx))\<rparr>\<rparr>
           in case copyHeaders cx' rs of
                Inl pn \<Rightarrow> Inl pn
              | Inr (cx'', rs') \<Rightarrow> Inr (cx'', r\<lparr>Res := Some res'\<rparr> # rs')))"

text \<open>
  What one pass of that loop does to the header collection of the caller's response, for a
  candidate that has a response.
\<close>

definition copyHeader :: "header \<Rightarrow> routeResult \<Rightarrow> header" where
  "copyHeader h r =
     (case Res r of
        None \<Rightarrow> h
      | Some res \<Rightarrow> CopyTo (removeMergeHeaders (Header res)) h)"

definition dquote :: string where
  "dquote = [CHR 0x22]"

text \<open>The loop of lines 137 to 147; \<open>index\<close> is the position of the head of the list.\<close>

fun writeMembers ::
  "nat \<Rightarrow> nat \<Rightarrow> requestCtx \<Rightarrow> routeResult list \<Rightarrow> panic + (requestCtx \<times> routeResult list)" where
  "writeMembers count index cx [] = Inr (cx, [])"
| "writeMembers count index cx (r # rs) =
     (case Node r of
        None \<Rightarrow> Inl NilDereference
      | Some n \<Rightarrow>
          (case Res r of
             None \<Rightarrow> Inl NilDereference
           | Some res \<Rightarrow>
               (let cx1 = WriteString dquote cx;
                    cx2 = WriteString (AttrName n) cx1;
                    cx3 = WriteString (dquote @ '':'') cx2;
                    cx4 = Write (Body res) cx3;
                    cx5 = (if int index < int count - 1 then WriteString '','' cx4 else cx4)
                in case writeMembers count (index + 1) cx5 rs of
                     Inl pn \<Rightarrow> Inl pn
                   | Inr (cx', rs') \<Rightarrow> Inr (cx', Release r # rs'))))"

text \<open>Lines 111 to 149: what the handler does with the candidates once all are dispatched.\<close>

definition joinResults ::
  "bool \<Rightarrow> nat \<Rightarrow> requestCtx \<Rightarrow> routeResult list \<Rightarrow> panic + (requestCtx \<times> routeResult list)" where
  "joinResults merge count cx rs =
     (case scanResults merge cx rs of
        Inl pn \<Rightarrow> Inl pn
      | Inr (Some out) \<Rightarrow> Inr out
      | Inr None \<Rightarrow>
          (case copyHeaders cx rs of
             Inl pn \<Rightarrow> Inl pn
           | Inr (cx1, rs1) \<Rightarrow>
               (let cx2 = cx1\<lparr>Response := (Response cx1)
                            \<lparr>Header := Add HeaderContentType MergeContentType
                                         (Header (Response cx1))\<rparr>\<rparr>;
                    cx3 = SetStatusCode StatusOK cx2;
                    cx4 = WriteString ''{'' cx3
                in case writeMembers count 0 cx4 rs1 of
                     Inl pn \<Rightarrow> Inl pn
                   | Inr (cx5, rs2) \<Rightarrow> Inr (WriteString ''}'' cx5, rs2))))"

text \<open>
  \<^verbatim>\<open>ReverseProxyHandler\<close>. \<open>results\<close> is what \<^verbatim>\<open>routeTable.Select\<close> returned for the request
  of \<open>cx\<close>. The result is the response written for the caller and the candidates as the
  handler leaves them.
\<close>

definition ReverseProxyHandler ::
  "proxy \<Rightarrow> routeResult list \<Rightarrow> requestCtx \<Rightarrow> panic + (requestCtx \<times> routeResult list)" where
  "ReverseProxyHandler p results cx =
     (case results of
        [] \<Rightarrow> Inr (SetStatusCode StatusServiceUnavailable cx, [])
      | r0 # rest \<Rightarrow>
          (let count = length results;
               merge = (count > 1)
           in case (if merge then dispatchAll p cx results
                    else (case doProxy p cx r0 of
                            Inl pn \<Rightarrow> Inl pn
                          | Inr (r', evs) \<Rightarrow> Inr (r' # rest))) of
                Inl pn \<Rightarrow> Inl pn
              | Inr rs \<Rightarrow> joinResults merge count cx rs))"

text \<open>Observers of an outcome: nothing is observed of a run that panicked.\<close>

definition dispatched :: "panic + (routeResult \<times> event list) \<Rightarrow> routeResult option" where
  "dispatched x = (case x of Inl pn \<Rightarrow> None | Inr (r, evs) \<Rightarrow> Some r)"

definition eventsOf :: "panic + (routeResult \<times> event list) \<Rightarrow> event list option" where
  "eventsOf x = (case x of Inl pn \<Rightarrow> None | Inr (r, evs) \<Rightarrow> Some evs)"

definition responseOf :: "panic + (requestCtx \<times> routeResult list) \<Rightarrow> response option" where
  "responseOf x = (case x of Inl pn \<Rightarrow> None | Inr (cx, rs) \<Rightarrow> Some (Response cx))"

definition candidatesOf :: "panic + (requestCtx \<times> routeResult list) \<Rightarrow> routeResult list option" where
  "candidatesOf x = (case x of Inl pn \<Rightarrow> None | Inr (cx, rs) \<Rightarrow> Some rs)"

section \<open>The merged body, as the specification words it\<close>

text \<open>
  A JSON object with one member per pair, in the order of the list: the key between double
  quotes, a colon, and the value as it is.
\<close>

definition mergeMember :: "string \<times> string \<Rightarrow> string" where
  "mergeMember m = dquote @ fst m @ dquote @ '':'' @ snd m"

fun joinComma :: "string list \<Rightarrow> string" where
  "joinComma [] = []"
| "joinComma [s] = s"
| "joinComma (s # t # ss) = s @ '','' @ joinComma (t # ss)"

definition mergeObject :: "(string \<times> string) list \<Rightarrow> string" where
  "mergeObject ms = ''{'' @ joinComma (map mergeMember ms) @ ''}''"

text \<open>The attribution name and the response body of a dispatched candidate.\<close>

definition memberOf :: "routeResult \<Rightarrow> string \<times> string" where
  "memberOf r =
     (case Node r of None \<Rightarrow> [] | Some n \<Rightarrow> AttrName n,
      case Res r of None \<Rightarrow> [] | Some res \<Rightarrow> Body res)"

section \<open>Example data\<close>

definition exRequest :: request where
  "exRequest = \<lparr>Method = ''GET'', Host = ''gateway'', Path = ''/api/users'',
     QueryString = ''?id=7'', ReqHeader = [(''Accept'', ''*/*'')], ReqBody = []\<rparr>"

definition exCtx :: requestCtx where
  "exCtx = \<lparr>Request = exRequest,
     Response = \<lparr>StatusCode = 200, Header = [], Body = []\<rparr>\<rparr>"

definition keep :: "filterContext \<Rightarrow> request \<times> (string \<rightharpoonup> string)" where
  "keep c = (outreq c, runtimeVar c)"

definition exAllow :: filter where
  "exAllow = \<lparr>Name = ''allow'', Pre = (\<lambda>c. (Continue, keep c)),
     Post = (\<lambda>c. (Continue, keep c)), PostErr = keep\<rparr>"

definition exDenyPre :: filter where
  "exDenyPre = \<lparr>Name = ''deny-pre'', Pre = (\<lambda>c. (Stop 403 (Error ''denied''), keep c)),
     Post = (\<lambda>c. (Continue, keep c)), PostErr = keep\<rparr>"

definition exDenyPost :: filter where
  "exDenyPost = \<lparr>Name = ''deny-post'', Pre = (\<lambda>c. (Continue, keep c)),
     Post = (\<lambda>c. (Stop 502 (Error ''rejected''), keep c)), PostErr = keep\<rparr>"

definition exResponse :: "int \<Rightarrow> header \<Rightarrow> string \<Rightarrow> backendCall" where
  "exResponse code h b =
     \<lparr>callRes = Some \<lparr>StatusCode = code, Header = h, Body = b\<rparr>, callErr = None,
      callStart = 10, callEnd = 20\<rparr>"

definition exFailure :: "string \<Rightarrow> backendCall" where
  "exFailure msg = \<lparr>callRes = None, callErr = Some (Error msg), callStart = 10, callEnd = 20\<rparr>"

definition exBackend :: "request \<Rightarrow> string \<Rightarrow> backendCall" where
  "exBackend req addr =
     (if addr = ''a'' then
        exResponse 200 [(''Content-Type'', ''text/plain''), (''X-A'', ''1'')] (''{'' @ dquote @ ''x'' @ dquote @ '':1}'')
      else if addr = ''b'' then
        exResponse 200 [(''Date'', ''today''), (''X-B'', ''2'')] (''{'' @ dquote @ ''y'' @ dquote @ '':2}'')
      else if addr = ''c'' then exResponse 500 [] ''down''
      else if addr = ''d'' then exFailure ''dial tcp: connection refused''
      else exFailure ''request canceled by the user'')"

definition exProxy :: "filter list \<Rightarrow> proxy" where
  "exProxy fs = \<lparr>filters = fs, fastHTTPClientDo = exBackend\<rparr>"

definition exCandidate :: "string \<Rightarrow> server option \<Rightarrow> routeResult" where
  "exCandidate name svr =
     \<lparr>Svr = svr, Node = Some \<lparr>AttrName = name, URL = ''/v1/'' @ name\<rparr>, Merge = False,
      Err = None, Code = 0, Res = None, NeedRewrite = False, GetRealPath = (\<lambda>req. []),
      Released = 0\<rparr>"

definition exCandidateAt :: "string \<Rightarrow> routeResult" where
  "exCandidateAt name = exCandidate name (Some \<lparr>Addr = name\<rparr>)"

definition exRewriteTo :: "string \<Rightarrow> routeResult" where
  "exRewriteTo uri = (exCandidateAt ''a'')\<lparr>NeedRewrite := True, GetRealPath := (\<lambda>req. uri)\<rparr>"

section \<open>The filter chains\<close>

lemmas ex_defs = exProxy_def exAllow_def exDenyPre_def exDenyPost_def keep_def applyFilter_def
  exCandidateAt_def exCandidate_def exBackend_def exResponse_def exFailure_def

lemma applyFilter_result [simp]: "result (applyFilter c upd) = result c"
  by (simp add: applyFilter_def)

text \<open>No chain writes the candidate.\<close>

lemma doPreFilters_result: "doPreFilters fs c = (out, c', evs) \<Longrightarrow> result c' = result c"
proof (induction fs arbitrary: c out c' evs)
  case Nil
  then show ?case by simp
next
  case (Cons f fs)
  obtain v upd where first: "Pre f c = (v, upd)"
    by (cases "Pre f c") auto
  show ?case
  proof (cases v)
    case Continue
    obtain out2 c2 evs2 where rec: "doPreFilters fs (applyFilter c upd) = (out2, c2, evs2)"
      by (cases "doPreFilters fs (applyFilter c upd)") auto
    from Cons.prems first Continue rec have "c' = c2" by simp
    with Cons.IH [OF rec] show ?thesis by simp
  next
    case (Stop code err)
    with Cons.prems first show ?thesis by auto
  qed
qed

lemma doPostFilters_result: "doPostFilters fs c = (out, c', evs) \<Longrightarrow> result c' = result c"
  by (induction fs arbitrary: c out c' evs) (fastforce split: prod.splits verdict.splits)+

lemma doPostErrFilters_result: "doPostErrFilters fs c = (c', evs) \<Longrightarrow> result c' = result c"
  by (induction fs arbitrary: c c' evs) (fastforce split: prod.splits)+

text \<open>
  The pre-filters that ran are an initial segment of the registered filters, each once and
  in registration order.
\<close>

lemma doPreFilters_events:
  "doPreFilters fs c = (out, c', evs) \<Longrightarrow>
     length evs \<le> length fs \<and> evs = map (\<lambda>f. PreFilter (Name f)) (take (length evs) fs)"
proof (induction fs arbitrary: c out c' evs)
  case Nil
  then show ?case by simp
next
  case (Cons f fs)
  obtain v upd where first: "Pre f c = (v, upd)"
    by (cases "Pre f c") auto
  show ?case
  proof (cases v)
    case Continue
    obtain out2 c2 evs2 where rec: "doPreFilters fs (applyFilter c upd) = (out2, c2, evs2)"
      by (cases "doPreFilters fs (applyFilter c upd)") auto
    from Cons.prems first Continue rec have "evs = PreFilter (Name f) # evs2" by simp
    with Cons.IH [OF rec] show ?thesis by simp
  next
    case (Stop code err)
    with Cons.prems first show ?thesis by auto
  qed
qed

text \<open>When a pre-filter stops the chain, it is the last one that ran.\<close>

lemma doPreFilters_stop:
  "doPreFilters fs c = ((name, code, Some err), c', evs) \<Longrightarrow>
     evs \<noteq> [] \<and> last evs = PreFilter name"
proof (induction fs arbitrary: c c' evs)
  case Nil
  then show ?case by simp
next
  case (Cons f fs)
  obtain v upd where first: "Pre f c = (v, upd)"
    by (cases "Pre f c") auto
  show ?case
  proof (cases v)
    case Continue
    obtain out2 c2 evs2 where rec: "doPreFilters fs (applyFilter c upd) = (out2, c2, evs2)"
      by (cases "doPreFilters fs (applyFilter c upd)") auto
    from Cons.prems first Continue rec
    have eq: "out2 = (name, code, Some err)" "evs = PreFilter (Name f) # evs2" by simp_all
    from Cons.IH [OF rec [unfolded eq(1)]] eq(2) show ?thesis by simp
  next
    case (Stop code' err')
    with Cons.prems first show ?thesis by auto
  qed
qed

lemma doPostFilters_events:
  "doPostFilters fs c = (out, c', evs) \<Longrightarrow>
     \<forall>e\<in>set evs. isPostFilter e \<and> \<not> isBackendCall e \<and> \<not> isPostErrFilter e"
  by (induction fs arbitrary: c out c' evs)
     (fastforce simp: isPostFilter_def isBackendCall_def isPostErrFilter_def
        split: prod.splits verdict.splits)+

text \<open>The post-error chain runs every registered filter, in registration order.\<close>

lemma doPostErrFilters_events:
  "doPostErrFilters fs c = (c', evs) \<Longrightarrow> evs = map (\<lambda>f. PostErrFilter (Name f)) fs"
  by (induction fs arbitrary: c c' evs) (fastforce split: prod.splits)+

text \<open>The pre-filter chain calls no backend and runs no post filter.\<close>

lemma doPreFilters_only_pre:
  assumes "doPreFilters fs c = (out, c', evs)"
  shows "\<forall>e\<in>set evs. \<not> isBackendCall e \<and> \<not> isPostFilter e \<and> \<not> isPostErrFilter e"
proof -
  have "\<forall>e\<in>set (map (\<lambda>f. PreFilter (Name f)) (take (length evs) fs)).
          \<not> isBackendCall e \<and> \<not> isPostFilter e \<and> \<not> isPostErrFilter e"
    by (simp add: isBackendCall_def isPostFilter_def isPostErrFilter_def)
  with doPreFilters_events [OF assms] show ?thesis by simp
qed

section \<open>Dispatch of one candidate: the paths that end early\<close>

text \<open>
  C9. A candidate whose server is absent gets the error \<open>ErrNoServer\<close> and the status code
  503; the dispatch returns with no event at all: no filter ran and the backend was not
  called. Every other field of the candidate is as it was.
\<close>

theorem doProxy_no_server:
  "Svr r = None \<Longrightarrow>
     doProxy p cx r = Inr (r\<lparr>Err := Some ErrNoServer, Code := 503\<rparr>, [])"
  by (simp add: doProxy_def StatusServiceUnavailable_def)

theorem doProxy_no_server_witness:
  "Svr (exCandidate ''a'' None) = None \<and>
   doProxy (exProxy [exDenyPre]) exCtx (exCandidate ''a'' None) =
     Inr ((exCandidate ''a'' None)\<lparr>Err := Some ErrNoServer, Code := 503\<rparr>, [])"
proof -
  have h: "Svr (exCandidate ''a'' None) = None"
    by (simp add: exCandidate_def)
  from doProxy_no_server [OF h] h show ?thesis by simp
qed

text \<open>
  C8. When a pre-filter stops the chain with a status code and an error, the dispatch
  returns the candidate with exactly that error and status code and nothing else changed.
  The events of the dispatch are pre-filter events only, those of an initial segment of
  the registered filters ending with the filter that stopped: the backend was not called,
  no later pre-filter ran, and no post-success or post-error filter ran.
\<close>

theorem doProxy_pre_filter_stop:
  assumes svr: "Svr r = Some svr"
    and pre: "doPreFilters (filters p) (newFilterContext cx (rewriteOutreq cx r svr) r) =
                ((name, code, Some err), c1, evs)"
  shows "doProxy p cx r = Inr (r\<lparr>Err := Some err, Code := code\<rparr>, evs)
         \<and> evs = map (\<lambda>f. PreFilter (Name f)) (take (length evs) (filters p))
         \<and> evs \<noteq> [] \<and> last evs = PreFilter name
         \<and> (\<forall>e\<in>set evs. \<not> isBackendCall e \<and> \<not> isPostFilter e \<and> \<not> isPostErrFilter e)"
proof -
  have res: "result c1 = r"
    using doPreFilters_result [OF pre] by (simp add: newFilterContext_def)
  have run: "doProxy p cx r = Inr (r\<lparr>Err := Some err, Code := code\<rparr>, evs)"
    using svr pre res by (simp add: doProxy_def Let_def)
  have shape: "evs = map (\<lambda>f. PreFilter (Name f)) (take (length evs) (filters p))"
    using doPreFilters_events [OF pre] by simp
  have "\<forall>e\<in>set (map (\<lambda>f. PreFilter (Name f)) (take (length evs) (filters p))).
          \<not> isBackendCall e \<and> \<not> isPostFilter e \<and> \<not> isPostErrFilter e"
    by (simp add: isBackendCall_def isPostFilter_def isPostErrFilter_def)
  with shape have only_pre:
    "\<forall>e\<in>set evs. \<not> isBackendCall e \<and> \<not> isPostFilter e \<and> \<not> isPostErrFilter e"
    by simp
  from run shape doPreFilters_stop [OF pre] only_pre show ?thesis by blast
qed

theorem doProxy_pre_filter_stop_witness:
  "Svr (exCandidateAt ''a'') = Some \<lparr>Addr = ''a''\<rparr> \<and>
   doPreFilters (filters (exProxy [exAllow, exDenyPre, exAllow]))
      (newFilterContext exCtx (rewriteOutreq exCtx (exCandidateAt ''a'') \<lparr>Addr = ''a''\<rparr>)
         (exCandidateAt ''a'')) =
     ((''deny-pre'', 403, Some (Error ''denied'')),
      newFilterContext exCtx (rewriteOutreq exCtx (exCandidateAt ''a'') \<lparr>Addr = ''a''\<rparr>)
         (exCandidateAt ''a''),
      [PreFilter ''allow'', PreFilter ''deny-pre'']) \<and>
   doProxy (exProxy [exAllow, exDenyPre, exAllow]) exCtx (exCandidateAt ''a'') =
     Inr ((exCandidateAt ''a'')\<lparr>Err := Some (Error ''denied''), Code := 403\<rparr>,
          [PreFilter ''allow'', PreFilter ''deny-pre''])"
proof -
  have h1: "Svr (exCandidateAt ''a'') = Some \<lparr>Addr = ''a''\<rparr>"
    by (simp add: ex_defs)
  have h2: "doPreFilters (filters (exProxy [exAllow, exDenyPre, exAllow]))
      (newFilterContext exCtx (rewriteOutreq exCtx (exCandidateAt ''a'') \<lparr>Addr = ''a''\<rparr>)
         (exCandidateAt ''a'')) =
     ((''deny-pre'', 403, Some (Error ''denied'')),
      newFilterContext exCtx (rewriteOutreq exCtx (exCandidateAt ''a'') \<lparr>Addr = ''a''\<rparr>)
         (exCandidateAt ''a''),
      [PreFilter ''allow'', PreFilter ''deny-pre''])"
    by (simp add: exProxy_def exAllow_def exDenyPre_def keep_def applyFilter_def
        newFilterContext_def)
  from doProxy_pre_filter_stop [OF h1 h2] h1 h2 show ?thesis by simp
qed

section \<open>Dispatch of one candidate: transport failures\<close>

text \<open>What lines 204 to 223 do when the backend call returned an error.\<close>

lemma afterBackend_failure:
  assumes "callErr bc = Some err"
  shows "afterBackend p c bc =
           Inr ((result c)\<lparr>Res := callRes bc, Err := Some err, Code := StatusServiceUnavailable\<rparr>,
                if HasPrefix (errorMsg err) ErrPrefixRequestCancel then []
                else map (\<lambda>f. PostErrFilter (Name f)) (filters p))"
proof (cases "HasPrefix (errorMsg err) ErrPrefixRequestCancel")
  case True
  with assms show ?thesis by (simp add: afterBackend_def)
next
  case False
  let ?c = "c\<lparr>result := (result c)\<lparr>Res := callRes bc\<rparr>\<rparr>"
  obtain c' evs where run: "doPostErrFilters (filters p) ?c = (c', evs)"
    by (cases "doPostErrFilters (filters p) ?c") auto
  from doPostErrFilters_result [OF run] have "result c' = (result c)\<lparr>Res := callRes bc\<rparr>"
    by simp
  moreover from doPostErrFilters_events [OF run]
  have "evs = map (\<lambda>f. PostErrFilter (Name f)) (filters p)" .
  ultimately show ?thesis
    using assms False run by (simp add: afterBackend_def)
qed

text \<open>
  C7. The candidate has a server, no pre-filter stops, and the backend call made with the
  outbound request the pre-filters left returns an error. Then the dispatch returns with
  that error and the status code 503 on the candidate, and what ran after the backend call
  is: nothing when the error message begins with \<open>ErrPrefixRequestCancel\<close>, and the
  post-error method of every registered filter, in order, when it does not. The status
  code is the same 503 in both cases.
\<close>

theorem doProxy_transport_failure:
  assumes svr: "Svr r = Some svr"
    and pre: "doPreFilters (filters p) (newFilterContext cx (rewriteOutreq cx r svr) r) =
                ((name, code, None), c1, evs)"
    and err: "callErr (fastHTTPClientDo p (outreq c1) (Addr svr)) = Some err"
  shows "\<exists>r' evs'. doProxy p cx r = Inr (r', evs @ BackendCall (outreq c1) (Addr svr) # evs')
           \<and> Err r' = Some err \<and> Code r' = 503
           \<and> evs' = (if HasPrefix (errorMsg err) ErrPrefixRequestCancel then []
                      else map (\<lambda>f. PostErrFilter (Name f)) (filters p))"
proof -
  let ?bc = "fastHTTPClientDo p (outreq c1) (Addr svr)"
  let ?c2 = "c1\<lparr>startAt := callStart ?bc, endAt := callEnd ?bc\<rparr>"
  note after = afterBackend_failure [OF err, of p ?c2]
  show ?thesis
    using svr pre after
    by (simp add: doProxy_def Let_def StatusServiceUnavailable_def)
qed

text \<open>
  Two dispatches through the filters \<open>allow\<close> and \<open>deny-post\<close>: the backend \<open>d\<close> refuses the
  connection, the call to the backend \<open>e\<close> is cancelled by the caller.
\<close>

theorem doProxy_transport_failure_witness:
  "eventsOf (doProxy (exProxy [exAllow, exDenyPost]) exCtx (exCandidateAt ''d'')) =
     Some [PreFilter ''allow'', PreFilter ''deny-post'',
           BackendCall (exRequest\<lparr>Path := ''/v1/d''\<rparr>) ''d'',
           PostErrFilter ''allow'', PostErrFilter ''deny-post'']
   \<and> map_option Code
        (dispatched (doProxy (exProxy [exAllow, exDenyPost]) exCtx (exCandidateAt ''d''))) =
      Some 503
   \<and> eventsOf (doProxy (exProxy [exAllow, exDenyPost]) exCtx (exCandidateAt ''e'')) =
     Some [PreFilter ''allow'', PreFilter ''deny-post'',
           BackendCall (exRequest\<lparr>Path := ''/v1/e''\<rparr>) ''e'']
   \<and> map_option Code
        (dispatched (doProxy (exProxy [exAllow, exDenyPost]) exCtx (exCandidateAt ''e''))) =
      Some 503"
proof -
  let ?p = "exProxy [exAllow, exDenyPost]"
  let ?out = "\<lambda>n. exRequest\<lparr>Path := ''/v1/'' @ n\<rparr>"
  have out: "rewriteOutreq exCtx (exCandidateAt n) \<lparr>Addr = n\<rparr> = ?out n" for n
    by (simp add: rewriteOutreq_def ex_defs exCtx_def copyRequest_def SetPath_def)
  have svr: "Svr (exCandidateAt n) = Some \<lparr>Addr = n\<rparr>" for n
    by (simp add: ex_defs)
  have pre: "doPreFilters (filters ?p)
               (newFilterContext exCtx (rewriteOutreq exCtx (exCandidateAt n) \<lparr>Addr = n\<rparr>)
                  (exCandidateAt n)) =
             (([], StatusOK, None), newFilterContext exCtx (?out n) (exCandidateAt n),
              [PreFilter ''allow'', PreFilter ''deny-post''])" for n
    by (simp add: out exProxy_def exAllow_def exDenyPost_def keep_def applyFilter_def
        newFilterContext_def)
  have errd: "callErr (fastHTTPClientDo ?p
                (outreq (newFilterContext exCtx (?out ''d'') (exCandidateAt ''d'')))
                (Addr \<lparr>Addr = ''d''\<rparr>)) = Some (Error ''dial tcp: connection refused'')"
    by (simp add: exProxy_def exBackend_def exFailure_def)
  have erre: "callErr (fastHTTPClientDo ?p
                (outreq (newFilterContext exCtx (?out ''e'') (exCandidateAt ''e'')))
                (Addr \<lparr>Addr = ''e''\<rparr>)) = Some (Error ''request canceled by the user'')"
    by (simp add: exProxy_def exBackend_def exFailure_def)
  from doProxy_transport_failure [OF svr pre errd] doProxy_transport_failure [OF svr pre erre]
  show ?thesis
    by (auto simp add: eventsOf_def dispatched_def newFilterContext_def HasPrefix_def
        ErrPrefixRequestCancel_def exProxy_def exAllow_def exDenyPost_def)
qed

section \<open>Dispatch of one candidate: every return path\<close>

text \<open>Lines 204 to 236, branch by branch, when the backend call returned no error.\<close>

lemma afterBackend_nil_response:
  assumes "callErr bc = None" and "callRes bc = None"
  shows "afterBackend p c bc = Inl NilDereference"
  using assms by (simp add: afterBackend_def)

lemma afterBackend_server_error:
  assumes "callErr bc = None" and "callRes bc = Some res"
    and "StatusCode res \<ge> StatusInternalServerError"
  shows "afterBackend p c bc =
           Inr ((result c)\<lparr>Res := Some res, Err := None, Code := StatusCode res\<rparr>,
                map (\<lambda>f. PostErrFilter (Name f)) (filters p))"
proof -
  let ?c = "c\<lparr>result := (result c)\<lparr>Res := callRes bc\<rparr>\<rparr>"
  obtain c' evs where run: "doPostErrFilters (filters p) ?c = (c', evs)"
    by (cases "doPostErrFilters (filters p) ?c") auto
  from doPostErrFilters_result [OF run] assms(2)
  have "result c' = (result c)\<lparr>Res := Some res\<rparr>"
    by simp
  moreover from doPostErrFilters_events [OF run]
  have "evs = map (\<lambda>f. PostErrFilter (Name f)) (filters p)" .
  ultimately show ?thesis
    using assms run by (simp add: afterBackend_def)
qed

lemma afterBackend_success:
  assumes "callErr bc = None" and "callRes bc = Some res"
    and "\<not> StatusCode res \<ge> StatusInternalServerError"
    and run: "doPostFilters (filters p) (c\<lparr>result := (result c)\<lparr>Res := Some res\<rparr>\<rparr>) =
                ((name, code, e), c', evs)"
  shows "afterBackend p c bc =
           Inr (case e of
                  None \<Rightarrow> (result c)\<lparr>Res := Some res\<rparr>
                | Some err \<Rightarrow> (result c)\<lparr>Res := Some res, Err := Some err, Code := code\<rparr>,
                evs)"
proof -
  from doPostFilters_result [OF run]
  have rc: "result c' = (result c)\<lparr>Res := Some res\<rparr>"
    by simp
  show ?thesis
  proof (cases e)
    case None
    with assms rc show ?thesis by (simp add: afterBackend_def)
  next
    case (Some err)
    with assms rc show ?thesis by (simp add: afterBackend_def)
  qed
qed

text \<open>What lines 204 to 236 leave on the candidate, whichever branch is taken.\<close>

lemma afterBackend_cases:
  assumes run: "afterBackend p c bc = Inr (r', evs)"
  shows "(\<exists>e cd. r' = (result c)\<lparr>Res := callRes bc, Err := e, Code := cd\<rparr>)
         \<and> Res r' = callRes bc
         \<and> (callErr bc = None \<longrightarrow> callRes bc \<noteq> None)
         \<and> (Err r' = None \<longrightarrow> callRes bc \<noteq> None)
         \<and> (\<forall>e\<in>set evs. \<not> isBackendCall e)
         \<and> ((\<exists>e\<in>set evs. isPostFilter e) \<longrightarrow> callRes bc \<noteq> None)"
proof (cases "callErr bc")
  case (Some err)
  from afterBackend_failure [OF Some, of p c] run
  have r': "r' = (result c)\<lparr>Res := callRes bc, Err := Some err, Code := StatusServiceUnavailable\<rparr>"
    and evs: "evs = (if HasPrefix (errorMsg err) ErrPrefixRequestCancel then []
                     else map (\<lambda>f. PostErrFilter (Name f)) (filters p))"
    by simp_all
  have "\<forall>e\<in>set (map (\<lambda>f. PostErrFilter (Name f)) (filters p)).
          \<not> isBackendCall e \<and> \<not> isPostFilter e"
    by (simp add: isBackendCall_def isPostFilter_def)
  with evs have quiet: "\<forall>e\<in>set evs. \<not> isBackendCall e \<and> \<not> isPostFilter e"
    by (simp split: if_splits)
  from r' have shape: "\<exists>e cd. r' = (result c)\<lparr>Res := callRes bc, Err := e, Code := cd\<rparr>"
    by blast
  from r' have "Res r' = callRes bc" and "Err r' = Some err" by simp_all
  with shape quiet Some show ?thesis by simp
next
  case None
  show ?thesis
  proof (cases "callRes bc")
    case nil: None
    from afterBackend_nil_response [OF None nil, of p c] run show ?thesis by simp
  next
    case (Some res)
    show ?thesis
    proof (cases "StatusCode res \<ge> StatusInternalServerError")
      case True
      from afterBackend_server_error [OF None Some True, of p c] run
      have r': "r' = (result c)\<lparr>Res := Some res, Err := None, Code := StatusCode res\<rparr>"
        and evs: "evs = map (\<lambda>f. PostErrFilter (Name f)) (filters p)"
        by simp_all
      have "\<forall>e\<in>set (map (\<lambda>f. PostErrFilter (Name f)) (filters p)).
              \<not> isBackendCall e \<and> \<not> isPostFilter e"
        by (simp add: isBackendCall_def isPostFilter_def)
      with evs have quiet: "\<forall>e\<in>set evs. \<not> isBackendCall e \<and> \<not> isPostFilter e"
        by simp
      from r' have "r' = (result c)\<lparr>Res := callRes bc, Err := None, Code := StatusCode res\<rparr>"
        by (simp add: Some)
      then have shape: "\<exists>e cd. r' = (result c)\<lparr>Res := callRes bc, Err := e, Code := cd\<rparr>"
        by blast
      from r' have "Res r' = Some res" by simp
      with shape quiet Some show ?thesis by simp
    next
      case False
      let ?c = "c\<lparr>result := (result c)\<lparr>Res := Some res\<rparr>\<rparr>"
      obtain name code e c' evs' where post: "doPostFilters (filters p) ?c = ((name, code, e), c', evs')"
        by (metis prod_cases3)
      from afterBackend_success [OF None Some False post] run
      have r': "r' = (case e of
                        None \<Rightarrow> (result c)\<lparr>Res := Some res\<rparr>
                      | Some err \<Rightarrow> (result c)\<lparr>Res := Some res, Err := Some err, Code := code\<rparr>)"
        and evs: "evs = evs'"
        by simp_all
      from doPostFilters_events [OF post] evs
      have quiet: "\<forall>e\<in>set evs. \<not> isBackendCall e" by blast
      have "r' = (result c)\<lparr>Res := callRes bc,
                   Err := (case e of None \<Rightarrow> Err (result c) | Some err \<Rightarrow> Some err),
                   Code := (case e of None \<Rightarrow> Code (result c) | Some err \<Rightarrow> code)\<rparr>"
        unfolding r' by (cases e) (simp_all add: Some)
      then have shape: "\<exists>e cd. r' = (result c)\<lparr>Res := callRes bc, Err := e, Code := cd\<rparr>"
        by blast
      have "Res r' = Some res"
        unfolding r' by (cases e) simp_all
      with shape quiet Some show ?thesis by simp
    qed
  qed
qed

text \<open>The three ways in which \<^verbatim>\<open>doProxy\<close> returns.\<close>

lemma doProxy_cases [consumes 1, case_names no_server pre_stop backend]:
  assumes run: "doProxy p cx r = Inr (r', evs)"
  obtains
    "Svr r = None" "r' = r\<lparr>Err := Some ErrNoServer, Code := StatusServiceUnavailable\<rparr>" "evs = []"
  | svr name code err c1 where
      "Svr r = Some svr"
      "doPreFilters (filters p) (newFilterContext cx (rewriteOutreq cx r svr) r) =
         ((name, code, Some err), c1, evs)"
      "r' = r\<lparr>Err := Some err, Code := code\<rparr>"
  | svr name code c1 evs1 evs2 where
      "Svr r = Some svr"
      "doPreFilters (filters p) (newFilterContext cx (rewriteOutreq cx r svr) r) =
         ((name, code, None), c1, evs1)"
      "result c1 = r"
      "afterBackend p
         (c1\<lparr>startAt := callStart (fastHTTPClientDo p (outreq c1) (Addr svr)),
              endAt := callEnd (fastHTTPClientDo p (outreq c1) (Addr svr))\<rparr>)
         (fastHTTPClientDo p (outreq c1) (Addr svr)) = Inr (r', evs2)"
      "evs = evs1 @ BackendCall (outreq c1) (Addr svr) # evs2"
proof (cases "Svr r")
  case None
  with run that(1) show ?thesis by (simp add: doProxy_def)
next
  case (Some svr)
  obtain name code e c1 evs1 where
    pre: "doPreFilters (filters p) (newFilterContext cx (rewriteOutreq cx r svr) r) =
            ((name, code, e), c1, evs1)"
    by (metis prod_cases3)
  have res: "result c1 = r"
    using doPreFilters_result [OF pre] by (simp add: newFilterContext_def)
  show ?thesis
  proof (cases e)
    case (Some err)
    with run \<open>Svr r = Some svr\<close> pre res that(2) show ?thesis
      by (simp add: doProxy_def Let_def)
  next
    case None
    let ?bc = "fastHTTPClientDo p (outreq c1) (Addr svr)"
    let ?c2 = "c1\<lparr>startAt := callStart ?bc, endAt := callEnd ?bc\<rparr>"
    from run \<open>Svr r = Some svr\<close> pre None
    obtain evs2 where "afterBackend p ?c2 ?bc = Inr (r', evs2)"
      and "evs = evs1 @ BackendCall (outreq c1) (Addr svr) # evs2"
      by (auto simp: doProxy_def Let_def split: sum.splits)
    with \<open>Svr r = Some svr\<close> pre None res that(3) show ?thesis by blast
  qed
qed

text \<open>A dispatch writes the three outcome fields of the candidate and nothing else.\<close>

lemma doProxy_frame:
  assumes "doProxy p cx r = Inr (r', evs)"
  shows "\<exists>res e cd. r' = r\<lparr>Res := res, Err := e, Code := cd\<rparr>"
  using assms
proof (cases rule: doProxy_cases)
  case no_server
  then have "r' = r\<lparr>Res := Res r, Err := Some ErrNoServer, Code := StatusServiceUnavailable\<rparr>"
    by simp
  then show ?thesis by blast
next
  case (pre_stop svr name code err c1)
  then have "r' = r\<lparr>Res := Res r, Err := Some err, Code := code\<rparr>" by simp
  then show ?thesis by blast
next
  case (backend svr name code c1 evs1 evs2)
  from afterBackend_cases [OF backend(4)] backend(3) show ?thesis by auto
qed

lemma doProxy_Res_when_no_Err:
  assumes run: "doProxy p cx r = Inr (r', evs)" and ok: "Err r' = None"
  shows "Res r' \<noteq> None"
  using run
proof (cases rule: doProxy_cases)
  case no_server
  with ok show ?thesis by simp
next
  case (pre_stop svr name code err c1)
  with ok show ?thesis by simp
next
  case (backend svr name code c1 evs1 evs2)
  from afterBackend_cases [OF backend(4)] ok show ?thesis by simp
qed

text \<open>The return of \<^verbatim>\<open>doProxy\<close> when no pre-filter stops: lines 200 to 236 decide.\<close>

lemma doProxy_backend:
  assumes "Svr r = Some svr"
    and "doPreFilters (filters p) (newFilterContext cx (rewriteOutreq cx r svr) r) =
           ((name, code, None), c1, evs)"
  shows "doProxy p cx r =
           (case afterBackend p
                   (c1\<lparr>startAt := callStart (fastHTTPClientDo p (outreq c1) (Addr svr)),
                        endAt := callEnd (fastHTTPClientDo p (outreq c1) (Addr svr))\<rparr>)
                   (fastHTTPClientDo p (outreq c1) (Addr svr)) of
              Inl pn \<Rightarrow> Inl pn
            | Inr (r', evs') \<Rightarrow> Inr (r', evs @ BackendCall (outreq c1) (Addr svr) # evs'))"
  using assms by (simp add: doProxy_def Let_def)

text \<open>The return of \<^verbatim>\<open>doProxy\<close> when a pre-filter stops the chain (lines 192 to 198).\<close>

lemma doProxy_pre_stop:
  assumes svr: "Svr r = Some svr"
    and pre: "doPreFilters (filters p) (newFilterContext cx (rewriteOutreq cx r svr) r) =
                ((name, code, Some err), c1, evs)"
  shows "doProxy p cx r = Inr (r\<lparr>Err := Some err, Code := code\<rparr>, evs)"
proof -
  have "result c1 = r"
    using doPreFilters_result [OF pre] by (simp add: newFilterContext_def)
  with svr pre show ?thesis
    by (simp add: doProxy_def Let_def)
qed

text \<open>
  The return of \<^verbatim>\<open>doProxy\<close> when the backend answered without a transport error and with
  a status code below 500: the post-success chain decides (lines 229 to 236).
\<close>

lemma doProxy_post_filters:
  assumes svr: "Svr r = Some svr"
    and pre: "doPreFilters (filters p) (newFilterContext cx (rewriteOutreq cx r svr) r) =
                ((name, code, None), c1, evs)"
    and e: "callErr (fastHTTPClientDo p (outreq c1) (Addr svr)) = None"
    and s: "callRes (fastHTTPClientDo p (outreq c1) (Addr svr)) = Some res"
    and lt: "StatusCode res < 500"
    and post: "doPostFilters (filters p) (postContext c1 (fastHTTPClientDo p (outreq c1) (Addr svr))) =
                 ((pname, pcode, perr), c3, evs3)"
  shows "doProxy p cx r =
           Inr (case perr of
                  None \<Rightarrow> r\<lparr>Res := Some res\<rparr>
                | Some err \<Rightarrow> r\<lparr>Res := Some res, Err := Some err, Code := pcode\<rparr>,
                evs @ BackendCall (outreq c1) (Addr svr) # evs3)"
proof -
  let ?bc = "fastHTTPClientDo p (outreq c1) (Addr svr)"
  let ?c = "c1\<lparr>startAt := callStart ?bc, endAt := callEnd ?bc\<rparr>"
  have r: "result ?c = r"
    using doPreFilters_result [OF pre] by (simp add: newFilterContext_def)
  have "postContext c1 ?bc = ?c\<lparr>result := (result ?c)\<lparr>Res := Some res\<rparr>\<rparr>"
    by (simp add: postContext_def s)
  with post have post': "doPostFilters (filters p) (?c\<lparr>result := (result ?c)\<lparr>Res := Some res\<rparr>\<rparr>) =
      ((pname, pcode, perr), c3, evs3)"
    by simp
  have below: "\<not> StatusCode res \<ge> StatusInternalServerError"
    using lt by (simp add: StatusInternalServerError_def)
  have after: "afterBackend p ?c ?bc =
      Inr (case perr of
             None \<Rightarrow> r\<lparr>Res := Some res\<rparr>
           | Some err \<Rightarrow> r\<lparr>Res := Some res, Err := Some err, Code := pcode\<rparr>,
           evs3)"
    using afterBackend_success [OF e s below post'] unfolding r .
  show ?thesis
    unfolding doProxy_backend [OF svr pre] after by simp
qed

section \<open>Which outcome fields a dispatch leaves populated\<close>

text \<open>
  Where the response field of a dispatched candidate comes from, read off the events of
  the dispatch.
\<close>

lemma doProxy_response_field:
  assumes "doProxy p cx r = Inr (r', evs)"
  shows "((\<forall>e\<in>set evs. \<not> isBackendCall e) \<longrightarrow> Err r' \<noteq> None \<and> Res r' = Res r)
       \<and> (\<forall>req addr. BackendCall req addr \<in> set evs \<longrightarrow>
             Res r' = callRes (fastHTTPClientDo p req addr))
       \<and> (\<forall>req addr err. BackendCall req addr \<in> set evs \<longrightarrow>
             callErr (fastHTTPClientDo p req addr) = Some err \<longrightarrow>
             Err r' = Some err \<and> Code r' = 503)
       \<and> ((\<exists>e\<in>set evs. isPostFilter e) \<longrightarrow> Res r' \<noteq> None)"
  using assms
proof (cases rule: doProxy_cases)
  case no_server
  then show ?thesis by simp
next
  case (pre_stop svr name code err c1)
  from doPreFilters_only_pre [OF pre_stop(2)]
  have quiet: "\<forall>e\<in>set evs. \<not> isBackendCall e \<and> \<not> isPostFilter e" by blast
  have no_call: "BackendCall req addr \<notin> set evs" for req addr
  proof
    assume "BackendCall req addr \<in> set evs"
    with quiet have "\<not> isBackendCall (BackendCall req addr)" by blast
    then show False by (simp add: isBackendCall_def)
  qed
  from pre_stop(3) have "Err r' \<noteq> None" and "Res r' = Res r" by simp_all
  with quiet no_call show ?thesis by blast
next
  case (backend svr name code c1 evs1 evs2)
  let ?bc = "fastHTTPClientDo p (outreq c1) (Addr svr)"
  note ab = afterBackend_cases [OF backend(4)]
  from doPreFilters_only_pre [OF backend(2)]
  have pre_only: "\<forall>e\<in>set evs1. \<not> isBackendCall e \<and> \<not> isPostFilter e" by blast
  from ab have post_only: "\<forall>e\<in>set evs2. \<not> isBackendCall e" by blast
  have call: "isBackendCall (BackendCall req addr)" for req addr
    by (simp add: isBackendCall_def)
  have only: "req = outreq c1 \<and> addr = Addr svr" if mem: "BackendCall req addr \<in> set evs"
    for req addr
  proof -
    from mem backend(5)
    consider "BackendCall req addr \<in> set evs1"
      | "BackendCall req addr = BackendCall (outreq c1) (Addr svr)"
      | "BackendCall req addr \<in> set evs2"
      by auto
    then show ?thesis
    proof cases
      case 1
      with pre_only call show ?thesis by blast
    next
      case 2
      then show ?thesis by simp
    next
      case 3
      with post_only call show ?thesis by blast
    qed
  qed
  have called: "\<exists>e\<in>set evs. isBackendCall e"
  proof
    show "BackendCall (outreq c1) (Addr svr) \<in> set evs" using backend(5) by simp
    show "isBackendCall (BackendCall (outreq c1) (Addr svr))" by (rule call)
  qed
  have res: "Res r' = callRes ?bc" using ab by blast
  have fail: "Err r' = Some err \<and> Code r' = 503" if "callErr ?bc = Some err" for err
  proof -
    from afterBackend_failure [OF that] backend(4)
    have "r' = r\<lparr>Res := callRes ?bc, Err := Some err, Code := StatusServiceUnavailable\<rparr>"
      by (simp add: backend(3))
    then show ?thesis by (simp add: StatusServiceUnavailable_def)
  qed
  have post: "Res r' \<noteq> None" if some: "\<exists>e\<in>set evs. isPostFilter e"
  proof -
    from some obtain e where mem: "e \<in> set evs" and pf: "isPostFilter e" by blast
    have "\<not> isPostFilter (BackendCall (outreq c1) (Addr svr))"
      by (simp add: isPostFilter_def)
    with mem pf backend(5) pre_only have "e \<in> set evs2" by auto
    with pf ab have "callRes ?bc \<noteq> None" by blast
    with res show ?thesis by simp
  qed
  show ?thesis
  proof (intro conjI allI impI)
    assume "\<forall>e\<in>set evs. \<not> isBackendCall e"
    with called show "Err r' \<noteq> None" by blast
  next
    assume "\<forall>e\<in>set evs. \<not> isBackendCall e"
    with called show "Res r' = Res r" by blast
  next
    fix req addr assume "BackendCall req addr \<in> set evs"
    from only [OF this] res show "Res r' = callRes (fastHTTPClientDo p req addr)" by simp
  next
    fix req addr err
    assume "BackendCall req addr \<in> set evs"
      and e: "callErr (fastHTTPClientDo p req addr) = Some err"
    from only [OF this(1)] e have "callErr ?bc = Some err" by simp
    from fail [OF this] show "Err r' = Some err" ..
  next
    fix req addr err
    assume "BackendCall req addr \<in> set evs"
      and e: "callErr (fastHTTPClientDo p req addr) = Some err"
    from only [OF this(1)] e have "callErr ?bc = Some err" by simp
    from fail [OF this] show "Code r' = 503" ..
  next
    assume "\<exists>e\<in>set evs. isPostFilter e"
    then show "Res r' \<noteq> None" by (rule post)
  qed
qed

text \<open>
  C6, as amended. For a dispatch that returns:
  \<^item> if the backend was not called, the candidate's error is set and its response is left
    as it was before the dispatch; that is so when the candidate has no server (error
    \<open>ErrNoServer\<close>, status code 503) and when a pre-filter stopped the chain (the error and
    the status code of that filter);
  \<^item> if the backend was called, the candidate's response is what the transport returned
    for that call, on every return path;
  \<^item> if, moreover, that call returned a transport error, the candidate's error is that
    error and its status code is 503;
  \<^item> if that call returned no transport error and a response with a status code below 500,
    the candidate's response is that response, and the post-success chain decides the
    rest: when a filter stops it, the candidate's error and status code are those of the
    filter, so that the response and the error are both populated; when none stops it,
    the error and the status code are left as they were;
  \<^item> if a post-success filter ran, the candidate's response is not nil.
\<close>

theorem doProxy_outcome_fields:
  assumes run: "doProxy p cx r = Inr (r', evs)"
  shows "((\<forall>e\<in>set evs. \<not> isBackendCall e) \<longrightarrow> Err r' \<noteq> None \<and> Res r' = Res r)
       \<and> (Svr r = None \<longrightarrow> Err r' = Some ErrNoServer \<and> Code r' = 503 \<and> Res r' = Res r)
       \<and> (\<forall>svr name code err c1 evs1.
             Svr r = Some svr \<longrightarrow>
             doPreFilters (filters p) (newFilterContext cx (rewriteOutreq cx r svr) r) =
               ((name, code, Some err), c1, evs1) \<longrightarrow>
             Err r' = Some err \<and> Code r' = code \<and> Res r' = Res r)
       \<and> (\<forall>req addr. BackendCall req addr \<in> set evs \<longrightarrow>
             Res r' = callRes (fastHTTPClientDo p req addr))
       \<and> (\<forall>req addr err. BackendCall req addr \<in> set evs \<longrightarrow>
             callErr (fastHTTPClientDo p req addr) = Some err \<longrightarrow>
             Err r' = Some err \<and> Code r' = 503)
       \<and> (\<forall>svr name code c1 evs1 res pname pcode perr c3 evs3.
             Svr r = Some svr \<longrightarrow>
             doPreFilters (filters p) (newFilterContext cx (rewriteOutreq cx r svr) r) =
               ((name, code, None), c1, evs1) \<longrightarrow>
             callErr (fastHTTPClientDo p (outreq c1) (Addr svr)) = None \<longrightarrow>
             callRes (fastHTTPClientDo p (outreq c1) (Addr svr)) = Some res \<longrightarrow>
             StatusCode res < 500 \<longrightarrow>
             doPostFilters (filters p)
               (postContext c1 (fastHTTPClientDo p (outreq c1) (Addr svr))) =
               ((pname, pcode, perr), c3, evs3) \<longrightarrow>
             Res r' = Some res
             \<and> (case perr of
                  Some err \<Rightarrow> Err r' = Some err \<and> Code r' = pcode
                | None \<Rightarrow> Err r' = Err r \<and> Code r' = Code r))
       \<and> ((\<exists>e\<in>set evs. isPostFilter e) \<longrightarrow> Res r' \<noteq> None)"
proof -
  note field = doProxy_response_field [OF run]
  have no_server: "Err r' = Some ErrNoServer \<and> Code r' = 503 \<and> Res r' = Res r"
    if "Svr r = None"
  proof -
    from that have "doProxy p cx r = Inr (r\<lparr>Err := Some ErrNoServer, Code := 503\<rparr>, [])"
      by (simp add: doProxy_def StatusServiceUnavailable_def)
    with run have "r' = r\<lparr>Err := Some ErrNoServer, Code := 503\<rparr>" by simp
    then show ?thesis by simp
  qed
  have pre_stop: "Err r' = Some err \<and> Code r' = code \<and> Res r' = Res r"
    if "Svr r = Some svr"
      and "doPreFilters (filters p) (newFilterContext cx (rewriteOutreq cx r svr) r) =
             ((name, code, Some err), c1, evs1)"
    for svr name code err c1 evs1
  proof -
    from doProxy_pre_stop [OF that] run have "r' = r\<lparr>Err := Some err, Code := code\<rparr>"
      by simp
    then show ?thesis by simp
  qed
  have post: "Res r' = Some res
        \<and> (case perr of
             Some err \<Rightarrow> Err r' = Some err \<and> Code r' = pcode
           | None \<Rightarrow> Err r' = Err r \<and> Code r' = Code r)"
    if "Svr r = Some svr"
      and "doPreFilters (filters p) (newFilterContext cx (rewriteOutreq cx r svr) r) =
             ((name, code, None), c1, evs1)"
      and "callErr (fastHTTPClientDo p (outreq c1) (Addr svr)) = None"
      and "callRes (fastHTTPClientDo p (outreq c1) (Addr svr)) = Some res"
      and "StatusCode res < 500"
      and "doPostFilters (filters p)
             (postContext c1 (fastHTTPClientDo p (outreq c1) (Addr svr))) =
             ((pname, pcode, perr), c3, evs3)"
    for svr name code c1 evs1 res pname pcode perr c3 evs3
  proof -
    from doProxy_post_filters [OF that] run
    have "r' = (case perr of
                  None \<Rightarrow> r\<lparr>Res := Some res\<rparr>
                | Some err \<Rightarrow> r\<lparr>Res := Some res, Err := Some err, Code := pcode\<rparr>)"
      by simp
    then show ?thesis by (cases perr) simp_all
  qed
  show ?thesis
  proof (intro conjI)
    show "(\<forall>e\<in>set evs. \<not> isBackendCall e) \<longrightarrow> Err r' \<noteq> None \<and> Res r' = Res r"
      using field by blast
    show "Svr r = None \<longrightarrow> Err r' = Some ErrNoServer \<and> Code r' = 503 \<and> Res r' = Res r"
      using no_server by blast
    show "\<forall>svr name code err c1 evs1.
             Svr r = Some svr \<longrightarrow>
             doPreFilters (filters p) (newFilterContext cx (rewriteOutreq cx r svr) r) =
               ((name, code, Some err), c1, evs1) \<longrightarrow>
             Err r' = Some err \<and> Code r' = code \<and> Res r' = Res r"
      using pre_stop by blast
    show "\<forall>req addr. BackendCall req addr \<in> set evs \<longrightarrow>
             Res r' = callRes (fastHTTPClientDo p req addr)"
      using field by blast
    show "\<forall>req addr err. BackendCall req addr \<in> set evs \<longrightarrow>
             callErr (fastHTTPClientDo p req addr) = Some err \<longrightarrow>
             Err r' = Some err \<and> Code r' = 503"
      using field by blast
    show "\<forall>svr name code c1 evs1 res pname pcode perr c3 evs3.
             Svr r = Some svr \<longrightarrow>
             doPreFilters (filters p) (newFilterContext cx (rewriteOutreq cx r svr) r) =
               ((name, code, None), c1, evs1) \<longrightarrow>
             callErr (fastHTTPClientDo p (outreq c1) (Addr svr)) = None \<longrightarrow>
             callRes (fastHTTPClientDo p (outreq c1) (Addr svr)) = Some res \<longrightarrow>
             StatusCode res < 500 \<longrightarrow>
             doPostFilters (filters p)
               (postContext c1 (fastHTTPClientDo p (outreq c1) (Addr svr))) =
               ((pname, pcode, perr), c3, evs3) \<longrightarrow>
             Res r' = Some res
             \<and> (case perr of
                  Some err \<Rightarrow> Err r' = Some err \<and> Code r' = pcode
                | None \<Rightarrow> Err r' = Err r \<and> Code r' = Code r)"
      using post by blast
    show "(\<exists>e\<in>set evs. isPostFilter e) \<longrightarrow> Res r' \<noteq> None"
      using field by blast
  qed
qed

section \<open>The handler after the join\<close>

lemma dispatchAll_each:
  "dispatchAll p cx rs = Inr rs' \<Longrightarrow>
     list_all2 (\<lambda>r r'. \<exists>evs. doProxy p cx (r\<lparr>Merge := True\<rparr>) = Inr (r', evs)) rs rs'"
proof (induction rs arbitrary: rs')
  case Nil
  then show ?case by simp
next
  case (Cons r rs)
  from Cons.prems obtain r' evs rest where
    one: "doProxy p cx (r\<lparr>Merge := True\<rparr>) = Inr (r', evs)"
    and others: "dispatchAll p cx rs = Inr rest"
    and whole: "rs' = r' # rest"
    by (auto split: sum.splits)
  from Cons.IH [OF others] one whole show ?case by auto
qed

lemma dispatchAll_Node:
  assumes "dispatchAll p cx rs = Inr rs'"
  shows "map Node rs' = map Node rs"
proof -
  have "list_all2 (\<lambda>r r'. Node r' = Node r) rs rs'"
    using dispatchAll_each [OF assms]
  proof (rule list_all2_mono)
    fix r r'
    assume "\<exists>evs. doProxy p cx (r\<lparr>Merge := True\<rparr>) = Inr (r', evs)"
    then obtain evs where "doProxy p cx (r\<lparr>Merge := True\<rparr>) = Inr (r', evs)" ..
    from doProxy_frame [OF this] show "Node r' = Node r" by auto
  qed
  then show ?thesis
    by (induction rs rs' rule: list_all2_induct) simp_all
qed

lemma scanResults_all_ok:
  "\<forall>r\<in>set rs. Err r = None \<Longrightarrow> scanResults True cx rs = Inr None"
  by (induction rs) simp_all

lemma copyHeaders_ok:
  "\<forall>r\<in>set rs. Res r \<noteq> None \<Longrightarrow>
     \<exists>cx1 rs1. copyHeaders cx rs = Inr (cx1, rs1)
       \<and> Request cx1 = Request cx
       \<and> Body (Response cx1) = Body (Response cx)
       \<and> Header (Response cx1) = foldl copyHeader (Header (Response cx)) rs
       \<and> map Node rs1 = map Node rs
       \<and> map memberOf rs1 = map memberOf rs
       \<and> map Released rs1 = map Released rs
       \<and> (\<forall>r\<in>set rs1. Res r \<noteq> None)"
proof (induction rs arbitrary: cx)
  case Nil
  then show ?case by simp
next
  case (Cons r rs)
  from Cons.prems obtain res where res: "Res r = Some res" by auto
  let ?res' = "res\<lparr>Header := removeMergeHeaders (Header res)\<rparr>"
  let ?cx' = "cx\<lparr>Response := (Response cx)\<lparr>Header := CopyTo (Header ?res') (Header (Response cx))\<rparr>\<rparr>"
  from Cons.prems have "\<forall>r\<in>set rs. Res r \<noteq> None" by simp
  from Cons.IH [OF this, of ?cx'] obtain cx1 rs1 where
    rec: "copyHeaders ?cx' rs = Inr (cx1, rs1)"
    and keep: "Request cx1 = Request ?cx'" "Body (Response cx1) = Body (Response ?cx')"
      "Header (Response cx1) = foldl copyHeader (Header (Response ?cx')) rs"
      "map Node rs1 = map Node rs" "map memberOf rs1 = map memberOf rs"
      "map Released rs1 = map Released rs" "\<forall>r\<in>set rs1. Res r \<noteq> None"
    by blast
  from res rec have "copyHeaders cx (r # rs) = Inr (cx1, r\<lparr>Res := Some ?res'\<rparr> # rs1)"
    by (simp add: Let_def)
  moreover have "memberOf (r\<lparr>Res := Some ?res'\<rparr>) = memberOf r"
    by (simp add: memberOf_def res)
  moreover have "copyHeader (Header (Response cx)) r = Header (Response ?cx')"
    by (simp add: copyHeader_def res)
  ultimately show ?case using keep by simp
qed

text \<open>What the member loop writes for the candidates from position \<open>index\<close> to the last.\<close>

lemma writeMembers_ok:
  assumes "\<forall>r\<in>set rs. Res r \<noteq> None \<and> Node r \<noteq> None"
    and "index + length rs = count"
  shows "\<exists>cx'. writeMembers count index cx rs = Inr (cx', map Release rs)
           \<and> Request cx' = Request cx
           \<and> StatusCode (Response cx') = StatusCode (Response cx)
           \<and> Header (Response cx') = Header (Response cx)
           \<and> Body (Response cx') = Body (Response cx) @ joinComma (map mergeMember (map memberOf rs))"
  using assms
proof (induction rs arbitrary: index cx)
  case Nil
  then show ?case by simp
next
  case (Cons r rs)
  from Cons.prems(1) obtain n res where n: "Node r = Some n" and res: "Res r = Some res"
    by auto
  let ?text = "dquote @ AttrName n @ dquote @ '':'' @ Body res"
  have member: "mergeMember (memberOf r) = ?text"
    by (simp add: mergeMember_def memberOf_def n res)
  show ?case
  proof (cases rs)
    case Nil
    with Cons.prems(2) have "\<not> int index < int count - 1" by simp
    with Nil n res member show ?thesis
      by (simp add: Let_def WriteString_def Write_def)
  next
    case (Cons r2 rest)
    with Cons.prems(2) have more: "int index < int count - 1" by simp
    let ?cx5 = "WriteString '','' (Write (Body res) (WriteString (dquote @ '':'')
                 (WriteString (AttrName n) (WriteString dquote cx))))"
    from Cons.prems have "\<forall>r\<in>set rs. Res r \<noteq> None \<and> Node r \<noteq> None"
      and "(index + 1) + length rs = count" by simp_all
    from Cons.IH [OF this, of ?cx5] obtain cx' where
      rec: "writeMembers count (index + 1) ?cx5 rs = Inr (cx', map Release rs)"
      and same: "Request cx' = Request ?cx5" "StatusCode (Response cx') = StatusCode (Response ?cx5)"
        "Header (Response cx') = Header (Response ?cx5)"
      and body: "Body (Response cx') =
                   Body (Response ?cx5) @ joinComma (map mergeMember (map memberOf rs))"
      by blast
    from n res more rec have "writeMembers count index cx (r # rs) = Inr (cx', map Release (r # rs))"
      by (simp add: Let_def)
    moreover from body member Cons
    have "Body (Response cx') =
            Body (Response cx) @ joinComma (map mergeMember (map memberOf (r # rs)))"
      by (simp add: WriteString_def Write_def)
    moreover from same have "Request cx' = Request cx"
      "StatusCode (Response cx') = StatusCode (Response cx)"
      "Header (Response cx') = Header (Response cx)"
      by (simp_all add: WriteString_def Write_def)
    ultimately show ?thesis by blast
  qed
qed

lemma dispatchAll_Res_when_no_Err:
  assumes join: "dispatchAll p cx results = Inr rs" and ok: "\<forall>r\<in>set rs. Err r = None"
  shows "\<forall>r\<in>set rs. Res r \<noteq> None"
proof
  fix r' assume mem: "r' \<in> set rs"
  from dispatchAll_each [OF join] mem
  obtain r evs where "doProxy p cx (r\<lparr>Merge := True\<rparr>) = Inr (r', evs)"
    by (auto simp: list_all2_conv_all_nth in_set_conv_nth)
  from doProxy_Res_when_no_Err [OF this] ok mem show "Res r' \<noteq> None" by simp
qed

lemma joinResults_merge:
  assumes ok: "\<forall>r\<in>set rs. Err r = None \<and> Res r \<noteq> None \<and> Node r \<noteq> None"
  shows "\<exists>cx' rs'. joinResults True (length rs) cx rs = Inr (cx', rs')
           \<and> Body (Response cx') = Body (Response cx) @ mergeObject (map memberOf rs)
           \<and> StatusCode (Response cx') = StatusOK
           \<and> Header (Response cx') =
                 Add HeaderContentType MergeContentType (foldl copyHeader (Header (Response cx)) rs)
           \<and> map Released rs' = map (\<lambda>r. Released r + 1) rs"
proof -
  from ok have scan: "scanResults True cx rs = Inr None"
    by (simp add: scanResults_all_ok)
  from ok have "\<forall>r\<in>set rs. Res r \<noteq> None" by simp
  from copyHeaders_ok [OF this, of cx] obtain cx1 rs1 where
    copy: "copyHeaders cx rs = Inr (cx1, rs1)"
    and body1: "Body (Response cx1) = Body (Response cx)"
    and head1: "Header (Response cx1) = foldl copyHeader (Header (Response cx)) rs"
    and nodes: "map Node rs1 = map Node rs"
    and members: "map memberOf rs1 = map memberOf rs"
    and rel: "map Released rs1 = map Released rs"
    and res1: "\<forall>r\<in>set rs1. Res r \<noteq> None"
    by blast
  let ?cx4 = "WriteString ''{'' (SetStatusCode StatusOK
                (cx1\<lparr>Response := (Response cx1)\<lparr>Header :=
                   Add HeaderContentType MergeContentType (Header (Response cx1))\<rparr>\<rparr>))"
  from nodes have len: "length rs1 = length rs"
    by (metis length_map)
  have "\<forall>r\<in>set rs1. Node r \<noteq> None"
  proof
    fix r assume "r \<in> set rs1"
    then have "Node r \<in> set (map Node rs)" using nodes by (metis image_eqI set_map)
    with ok show "Node r \<noteq> None" by auto
  qed
  with res1 have all1: "\<forall>r\<in>set rs1. Res r \<noteq> None \<and> Node r \<noteq> None" by simp
  have "0 + length rs1 = length rs" using len by simp
  from writeMembers_ok [OF all1 this, of ?cx4] obtain cx5 where
    wr: "writeMembers (length rs) 0 ?cx4 rs1 = Inr (cx5, map Release rs1)"
    and st: "StatusCode (Response cx5) = StatusCode (Response ?cx4)"
    and head5: "Header (Response cx5) = Header (Response ?cx4)"
    and body5: "Body (Response cx5) =
                  Body (Response ?cx4) @ joinComma (map mergeMember (map memberOf rs1))"
    by blast
  from scan copy wr
  have run: "joinResults True (length rs) cx rs = Inr (WriteString ''}'' cx5, map Release rs1)"
    by (simp add: joinResults_def Let_def)
  have "Body (Response (WriteString ''}'' cx5)) = Body (Response cx) @ mergeObject (map memberOf rs)"
    using body5 body1 members
    by (simp add: WriteString_def SetStatusCode_def mergeObject_def)
  moreover have "StatusCode (Response (WriteString ''}'' cx5)) = StatusOK"
    using st by (simp add: WriteString_def SetStatusCode_def)
  moreover have "Header (Response (WriteString ''}'' cx5)) =
      Add HeaderContentType MergeContentType (foldl copyHeader (Header (Response cx)) rs)"
    using head5 head1 by (simp add: WriteString_def SetStatusCode_def)
  moreover have "map Released (map Release rs1) = map (\<lambda>r. Released r + 1) rs"
  proof -
    have "map Released (map Release rs1) = map (\<lambda>n. n + 1) (map Released rs1)"
      by (simp add: Release_def)
    also have "\<dots> = map (\<lambda>n. n + 1) (map Released rs)" using rel by simp
    finally show ?thesis by simp
  qed
  ultimately show ?thesis using run by blast
qed

text \<open>With more than one candidate the handler is the fan-out followed by the join.\<close>

lemma ReverseProxyHandler_fanout:
  assumes "1 < length results" and "dispatchAll p cx results = Inr rs"
  shows "ReverseProxyHandler p results cx = joinResults True (length results) cx rs"
proof -
  from assms(1) obtain r0 rest where split: "results = r0 # rest"
    by (cases results) auto
  show ?thesis
    using assms unfolding ReverseProxyHandler_def split
    by (simp add: Let_def)
qed

text \<open>
  The first candidate with an error ends the loop of lines 111 to 123: its status code is
  written, it is released, and the handler returns with every other candidate untouched.
\<close>

lemma scanResults_first_error:
  assumes "\<forall>r\<in>set before. Err r = None" and "Err r = Some e"
  shows "scanResults True cx (before @ r # rest) =
           Inr (Some (SetStatusCode (Code r) cx, before @ Release r # rest))"
  using assms by (induction before) simp_all

section \<open>The merged response\<close>

text \<open>
  C2. More than one candidate, every candidate with a node (the holder of its attribution
  name), every dispatch returned, and no dispatched candidate has an error. Then the
  handler returns, the body it wrote for the caller is the JSON object with one member per
  candidate in the candidates' order, the key being the candidate's attribution name and
  the value the body of its backend response as it is, and the status code is 200. There
  are as many members as candidates, and the dispatch leaves every candidate's node as
  the resolver gave it.
\<close>

theorem ReverseProxyHandler_merge_body:
  assumes many: "1 < length results"
    and join: "dispatchAll p cx results = Inr rs"
    and ok: "\<forall>r\<in>set rs. Err r = None"
    and named: "\<forall>r\<in>set results. Node r \<noteq> None"
  shows "\<exists>cx' rs'. ReverseProxyHandler p results cx = Inr (cx', rs')
            \<and> Body (Response cx') = Body (Response cx) @ mergeObject (map memberOf rs)
            \<and> StatusCode (Response cx') = 200
            \<and> length (map memberOf rs) = length results
            \<and> map Node rs = map Node results"
proof -
  have nodes: "map Node rs = map Node results"
    by (rule dispatchAll_Node [OF join])
  then have len: "length rs = length results"
    by (metis length_map)
  have "\<forall>r\<in>set rs. Node r \<noteq> None"
  proof
    fix r assume "r \<in> set rs"
    then have "Node r \<in> set (map Node results)" using nodes by (metis image_eqI set_map)
    with named show "Node r \<noteq> None" by auto
  qed
  with ok dispatchAll_Res_when_no_Err [OF join ok]
  have all: "\<forall>r\<in>set rs. Err r = None \<and> Res r \<noteq> None \<and> Node r \<noteq> None" by simp
  from joinResults_merge [OF all, of cx] obtain cx' rs' where
    jr: "joinResults True (length rs) cx rs = Inr (cx', rs')"
    and body: "Body (Response cx') = Body (Response cx) @ mergeObject (map memberOf rs)"
    and st: "StatusCode (Response cx') = StatusOK"
    by blast
  from many obtain r0 rest where split: "results = r0 # rest"
    by (cases results) auto
  have "ReverseProxyHandler p results cx = joinResults True (length results) cx rs"
    using many join unfolding ReverseProxyHandler_def split
    by (simp add: Let_def)
  with jr len have "ReverseProxyHandler p results cx = Inr (cx', rs')" by simp
  with body st nodes len show ?thesis by (simp add: StatusOK_def)
qed

section \<open>The example candidates, dispatched\<close>

lemma exCandidateAt_fields [simp]:
  "Svr (exCandidateAt n) = Some \<lparr>Addr = n\<rparr>"
  "Node (exCandidateAt n) = Some \<lparr>AttrName = n, URL = ''/v1/'' @ n\<rparr>"
  "NeedRewrite (exCandidateAt n) = False"
  "Err (exCandidateAt n) = None"
  "Code (exCandidateAt n) = 0"
  "Res (exCandidateAt n) = None"
  "Released (exCandidateAt n) = 0"
  by (simp_all add: exCandidateAt_def exCandidate_def)

text \<open>The outbound request for the example candidate \<open>n\<close>: only the path is replaced.\<close>

lemma rewriteOutreq_example:
  "\<not> NeedRewrite r \<Longrightarrow> Node r = Some \<lparr>AttrName = n, URL = u\<rparr> \<Longrightarrow>
     rewriteOutreq exCtx r svr = exRequest\<lparr>Path := u\<rparr>"
  by (simp add: rewriteOutreq_def copyRequest_def SetPath_def exCtx_def)

text \<open>The chains of the single filter \<open>allow\<close>, which stops nothing and changes nothing.\<close>

lemma exAllow_chains:
  "doPreFilters [exAllow] c = (([], StatusOK, None), c, [PreFilter ''allow''])"
  "doPostFilters [exAllow] c = (([], StatusOK, None), c, [PostFilter ''allow''])"
  "doPostErrFilters [exAllow] c = (c, [PostErrFilter ''allow''])"
  by (simp_all add: exAllow_def keep_def applyFilter_def)

lemma doProxy_example:
  fixes n :: string and m :: bool
  defines "r \<equiv> (exCandidateAt n)\<lparr>Merge := m\<rparr>"
    and "out \<equiv> exRequest\<lparr>Path := ''/v1/'' @ n\<rparr>"
  shows "doProxy (exProxy [exAllow]) exCtx r =
           (case afterBackend (exProxy [exAllow])
                   ((newFilterContext exCtx out r)
                      \<lparr>startAt := callStart (exBackend out n), endAt := callEnd (exBackend out n)\<rparr>)
                   (exBackend out n) of
              Inl pn \<Rightarrow> Inl pn
            | Inr (r', evs') \<Rightarrow> Inr (r', [PreFilter ''allow''] @ BackendCall out n # evs'))"
proof -
  have svr: "Svr r = Some \<lparr>Addr = n\<rparr>"
    by (simp add: r_def)
  have rw: "rewriteOutreq exCtx r \<lparr>Addr = n\<rparr> = out"
    unfolding out_def by (rule rewriteOutreq_example [where n = n]) (simp_all add: r_def)
  have pre: "doPreFilters (filters (exProxy [exAllow]))
               (newFilterContext exCtx (rewriteOutreq exCtx r \<lparr>Addr = n\<rparr>) r) =
             (([], StatusOK, None), newFilterContext exCtx out r, [PreFilter ''allow''])"
    by (simp add: rw exProxy_def exAllow_chains del: doPreFilters.simps)
  have o: "outreq (newFilterContext exCtx out r) = out"
    by (simp add: newFilterContext_def)
  have a: "Addr \<lparr>Addr = n\<rparr> = n"
    by simp
  have f: "fastHTTPClientDo (exProxy [exAllow]) = exBackend"
    by (simp add: exProxy_def)
  from doProxy_backend [OF svr pre] show ?thesis
    unfolding o a f .
qed

lemma doProxy_example_success:
  assumes bc: "exBackend (exRequest\<lparr>Path := ''/v1/'' @ n\<rparr>) n = exResponse code h b"
    and ok: "code < 500"
  shows "doProxy (exProxy [exAllow]) exCtx ((exCandidateAt n)\<lparr>Merge := m\<rparr>) =
           Inr ((exCandidateAt n)\<lparr>Merge := m, Res := Some \<lparr>StatusCode = code, Header = h, Body = b\<rparr>\<rparr>,
                [PreFilter ''allow'', BackendCall (exRequest\<lparr>Path := ''/v1/'' @ n\<rparr>) n,
                 PostFilter ''allow''])"
proof -
  let ?r = "(exCandidateAt n)\<lparr>Merge := m\<rparr>"
  let ?out = "exRequest\<lparr>Path := ''/v1/'' @ n\<rparr>"
  let ?res = "\<lparr>StatusCode = code, Header = h, Body = b\<rparr>"
  let ?c = "(newFilterContext exCtx ?out ?r)\<lparr>startAt := callStart (exBackend ?out n),
              endAt := callEnd (exBackend ?out n)\<rparr>"
  have e: "callErr (exBackend ?out n) = None" and s: "callRes (exBackend ?out n) = Some ?res"
    using bc by (simp_all add: exResponse_def)
  have lt: "\<not> StatusCode ?res \<ge> StatusInternalServerError"
    using ok by (simp add: StatusInternalServerError_def)
  have post: "doPostFilters (filters (exProxy [exAllow])) (?c\<lparr>result := (result ?c)\<lparr>Res := Some ?res\<rparr>\<rparr>) =
                (([], StatusOK, None), ?c\<lparr>result := (result ?c)\<lparr>Res := Some ?res\<rparr>\<rparr>,
                 [PostFilter ''allow''])"
    by (simp add: exProxy_def exAllow_chains del: doPostFilters.simps)
  from afterBackend_success [OF e s lt post]
  have "afterBackend (exProxy [exAllow]) ?c (exBackend ?out n) =
          Inr (?r\<lparr>Res := Some ?res\<rparr>, [PostFilter ''allow''])"
    by (simp add: newFilterContext_def)
  then show ?thesis
    by (simp add: doProxy_example)
qed

lemma doProxy_example_server_error:
  assumes bc: "exBackend (exRequest\<lparr>Path := ''/v1/'' @ n\<rparr>) n = exResponse code h b"
    and bad: "500 \<le> code"
  shows "doProxy (exProxy [exAllow]) exCtx ((exCandidateAt n)\<lparr>Merge := m\<rparr>) =
           Inr ((exCandidateAt n)\<lparr>Merge := m, Res := Some \<lparr>StatusCode = code, Header = h, Body = b\<rparr>,
                                   Err := None, Code := code\<rparr>,
                [PreFilter ''allow'', BackendCall (exRequest\<lparr>Path := ''/v1/'' @ n\<rparr>) n,
                 PostErrFilter ''allow''])"
proof -
  let ?r = "(exCandidateAt n)\<lparr>Merge := m\<rparr>"
  let ?out = "exRequest\<lparr>Path := ''/v1/'' @ n\<rparr>"
  let ?res = "\<lparr>StatusCode = code, Header = h, Body = b\<rparr>"
  let ?c = "(newFilterContext exCtx ?out ?r)\<lparr>startAt := callStart (exBackend ?out n),
              endAt := callEnd (exBackend ?out n)\<rparr>"
  have e: "callErr (exBackend ?out n) = None" and s: "callRes (exBackend ?out n) = Some ?res"
    using bc by (simp_all add: exResponse_def)
  have ge: "StatusCode ?res \<ge> StatusInternalServerError"
    using bad by (simp add: StatusInternalServerError_def)
  from afterBackend_server_error [OF e s ge, of "exProxy [exAllow]" ?c]
  have "afterBackend (exProxy [exAllow]) ?c (exBackend ?out n) =
          Inr (?r\<lparr>Res := Some ?res, Err := None, Code := code\<rparr>, [PostErrFilter ''allow''])"
    by (simp add: newFilterContext_def exProxy_def exAllow_def)
  then show ?thesis
    by (simp add: doProxy_example)
qed

lemma doProxy_example_failure:
  assumes bc: "exBackend (exRequest\<lparr>Path := ''/v1/'' @ n\<rparr>) n = exFailure msg"
    and real: "\<not> HasPrefix msg ErrPrefixRequestCancel"
  shows "doProxy (exProxy [exAllow]) exCtx ((exCandidateAt n)\<lparr>Merge := m\<rparr>) =
           Inr ((exCandidateAt n)\<lparr>Merge := m, Res := None, Err := Some (Error msg), Code := 503\<rparr>,
                [PreFilter ''allow'', BackendCall (exRequest\<lparr>Path := ''/v1/'' @ n\<rparr>) n,
                 PostErrFilter ''allow''])"
proof -
  let ?r = "(exCandidateAt n)\<lparr>Merge := m\<rparr>"
  let ?out = "exRequest\<lparr>Path := ''/v1/'' @ n\<rparr>"
  let ?c = "(newFilterContext exCtx ?out ?r)\<lparr>startAt := callStart (exBackend ?out n),
              endAt := callEnd (exBackend ?out n)\<rparr>"
  have e: "callErr (exBackend ?out n) = Some (Error msg)" and s: "callRes (exBackend ?out n) = None"
    using bc by (simp_all add: exFailure_def)
  from afterBackend_failure [OF e, of "exProxy [exAllow]" ?c] real s
  have "afterBackend (exProxy [exAllow]) ?c (exBackend ?out n) =
          Inr (?r\<lparr>Res := None, Err := Some (Error msg), Code := 503\<rparr>, [PostErrFilter ''allow''])"
    by (simp add: newFilterContext_def exProxy_def exAllow_def StatusServiceUnavailable_def)
  then show ?thesis
    by (simp add: doProxy_example)
qed

lemma exBackend_values:
  "exBackend req ''a'' =
     exResponse 200 [(''Content-Type'', ''text/plain''), (''X-A'', ''1'')]
       (''{'' @ dquote @ ''x'' @ dquote @ '':1}'')"
  "exBackend req ''b'' =
     exResponse 200 [(''Date'', ''today''), (''X-B'', ''2'')] (''{'' @ dquote @ ''y'' @ dquote @ '':2}'')"
  "exBackend req ''c'' = exResponse 500 [] ''down''"
  "exBackend req ''d'' = exFailure ''dial tcp: connection refused''"
  by (simp_all add: exBackend_def)

section \<open>Fan-outs of the example candidates\<close>

lemma dispatchAll_a_b:
  "dispatchAll (exProxy [exAllow]) exCtx [exCandidateAt ''a'', exCandidateAt ''b''] =
     Inr [(exCandidateAt ''a'')\<lparr>Merge := True, Res := callRes (exBackend exRequest ''a'')\<rparr>,
          (exCandidateAt ''b'')\<lparr>Merge := True, Res := callRes (exBackend exRequest ''b'')\<rparr>]"
  by (simp add: doProxy_example_success [OF exBackend_values(1)]
      doProxy_example_success [OF exBackend_values(2)] exBackend_values exResponse_def)

lemma dispatchAll_a_c:
  "dispatchAll (exProxy [exAllow]) exCtx [exCandidateAt ''a'', exCandidateAt ''c''] =
     Inr [(exCandidateAt ''a'')\<lparr>Merge := True, Res := callRes (exBackend exRequest ''a'')\<rparr>,
          (exCandidateAt ''c'')\<lparr>Merge := True, Res := callRes (exBackend exRequest ''c''),
                                Err := None, Code := 500\<rparr>]"
  by (simp add: doProxy_example_success [OF exBackend_values(1)]
      doProxy_example_server_error [OF exBackend_values(3)] exBackend_values exResponse_def)

lemma dispatchAll_a_d_b:
  "dispatchAll (exProxy [exAllow]) exCtx
     [exCandidateAt ''a'', exCandidateAt ''d'', exCandidateAt ''b''] =
     Inr [(exCandidateAt ''a'')\<lparr>Merge := True, Res := callRes (exBackend exRequest ''a'')\<rparr>,
          (exCandidateAt ''d'')\<lparr>Merge := True, Res := None,
             Err := Some (Error ''dial tcp: connection refused''), Code := 503\<rparr>,
          (exCandidateAt ''b'')\<lparr>Merge := True, Res := callRes (exBackend exRequest ''b'')\<rparr>]"
proof -
  have real: "\<not> HasPrefix ''dial tcp: connection refused'' ErrPrefixRequestCancel"
    by (simp add: HasPrefix_def ErrPrefixRequestCancel_def)
  show ?thesis
    by (simp add: doProxy_example_success [OF exBackend_values(1)]
        doProxy_example_success [OF exBackend_values(2)]
        doProxy_example_failure [OF exBackend_values(4) real] exBackend_values exResponse_def)
qed

section \<open>The fail-fast return\<close>

text \<open>
  C3. A fan-out of the three candidates \<open>a\<close>, \<open>d\<close> and \<open>b\<close>, where the backend of \<open>d\<close>
  refuses the connection and the other two answer with 200. The handler writes the status
  code 503 and no body, and returns having released \<open>d\<close> once and neither \<open>a\<close> nor \<open>b\<close>:
  the loop of lines 111 to 116 releases the candidate it stops at and returns.
\<close>

theorem fail_fast_releases_one_candidate:
  "map_option (map Released) (candidatesOf
     (ReverseProxyHandler (exProxy [exAllow])
        [exCandidateAt ''a'', exCandidateAt ''d'', exCandidateAt ''b''] exCtx)) = Some [0, 1, 0]
   \<and> map_option StatusCode (responseOf
     (ReverseProxyHandler (exProxy [exAllow])
        [exCandidateAt ''a'', exCandidateAt ''d'', exCandidateAt ''b''] exCtx)) = Some 503
   \<and> map_option Body (responseOf
     (ReverseProxyHandler (exProxy [exAllow])
        [exCandidateAt ''a'', exCandidateAt ''d'', exCandidateAt ''b''] exCtx)) = Some []"
proof -
  let ?a = "(exCandidateAt ''a'')\<lparr>Merge := True, Res := callRes (exBackend exRequest ''a'')\<rparr>"
  let ?d = "(exCandidateAt ''d'')\<lparr>Merge := True, Res := None,
              Err := Some (Error ''dial tcp: connection refused''), Code := 503\<rparr>"
  let ?b = "(exCandidateAt ''b'')\<lparr>Merge := True, Res := callRes (exBackend exRequest ''b'')\<rparr>"
  let ?results = "[exCandidateAt ''a'', exCandidateAt ''d'', exCandidateAt ''b'']"
  have "ReverseProxyHandler (exProxy [exAllow]) ?results exCtx =
          joinResults True (length ?results) exCtx [?a, ?d, ?b]"
    by (rule ReverseProxyHandler_fanout [OF _ dispatchAll_a_d_b]) simp
  moreover have "scanResults True exCtx ([?a] @ ?d # [?b]) =
      Inr (Some (SetStatusCode (Code ?d) exCtx, [?a] @ Release ?d # [?b]))"
    by (rule scanResults_first_error) simp_all
  ultimately have "ReverseProxyHandler (exProxy [exAllow]) ?results exCtx =
      Inr (SetStatusCode 503 exCtx, [?a, Release ?d, ?b])"
    by (simp add: joinResults_def)
  then show ?thesis
    by (simp add: candidatesOf_def responseOf_def Release_def SetStatusCode_def exCtx_def)
qed

section \<open>A backend answer of 500 in a fan-out\<close>

text \<open>
  C1. A fan-out of the two candidates \<open>a\<close> and \<open>c\<close>, where the backend of \<open>c\<close> answers with
  status 500 and no transport error, and the backend of \<open>a\<close> with 200. The dispatch of \<open>c\<close>
  takes the failure branch of line 206 and sets the candidate's status code to 500, but
  it assigns the nil transport error to the candidate's error (line 221). The handler
  looks at the error only, so it writes the status code 200 and the merge object, with
  the body of the 500 answer as the value of the member \<open>c\<close>.
\<close>

theorem backend_500_is_merged:
  "map_option Err (dispatched (doProxy (exProxy [exAllow]) exCtx
       ((exCandidateAt ''c'')\<lparr>Merge := True\<rparr>))) = Some None
   \<and> map_option Code (dispatched (doProxy (exProxy [exAllow]) exCtx
       ((exCandidateAt ''c'')\<lparr>Merge := True\<rparr>))) = Some 500
   \<and> map_option StatusCode (responseOf
        (ReverseProxyHandler (exProxy [exAllow]) [exCandidateAt ''a'', exCandidateAt ''c''] exCtx)) =
      Some 200
   \<and> map_option Body (responseOf
        (ReverseProxyHandler (exProxy [exAllow]) [exCandidateAt ''a'', exCandidateAt ''c''] exCtx)) =
      Some (mergeObject [(''a'', ''{'' @ dquote @ ''x'' @ dquote @ '':1}''), (''c'', ''down'')])"
proof -
  let ?a = "(exCandidateAt ''a'')\<lparr>Merge := True, Res := callRes (exBackend exRequest ''a'')\<rparr>"
  let ?c = "(exCandidateAt ''c'')\<lparr>Merge := True, Res := callRes (exBackend exRequest ''c''),
              Err := None, Code := 500\<rparr>"
  let ?results = "[exCandidateAt ''a'', exCandidateAt ''c'']"
  have one: "doProxy (exProxy [exAllow]) exCtx ((exCandidateAt ''c'')\<lparr>Merge := True\<rparr>) =
      Inr (?c, [PreFilter ''allow'', BackendCall (exRequest\<lparr>Path := ''/v1/c''\<rparr>) ''c'',
                PostErrFilter ''allow''])"
    by (simp add: doProxy_example_server_error [OF exBackend_values(3)] exBackend_values
        exResponse_def)
  have handler: "ReverseProxyHandler (exProxy [exAllow]) ?results exCtx =
          joinResults True (length [?a, ?c]) exCtx [?a, ?c]"
    using ReverseProxyHandler_fanout [OF _ dispatchAll_a_c] by simp
  have "\<forall>r\<in>set [?a, ?c]. Err r = None \<and> Res r \<noteq> None \<and> Node r \<noteq> None"
    by (simp add: exBackend_values exResponse_def)
  from joinResults_merge [OF this, of exCtx] handler obtain cx' rs' where
    run: "ReverseProxyHandler (exProxy [exAllow]) ?results exCtx = Inr (cx', rs')"
    and body: "Body (Response cx') = Body (Response exCtx) @ mergeObject (map memberOf [?a, ?c])"
    and st: "StatusCode (Response cx') = StatusOK"
    by auto
  have members: "map memberOf [?a, ?c] =
      [(''a'', ''{'' @ dquote @ ''x'' @ dquote @ '':1}''), (''c'', ''down'')]"
    by (simp add: memberOf_def exBackend_values exResponse_def)
  from one run body st members show ?thesis
    by (simp add: dispatched_def responseOf_def StatusOK_def exCtx_def)
qed

section \<open>The headers of the merged response\<close>

text \<open>
  C4. A fan-out of the two candidates \<open>a\<close> and \<open>b\<close>, both answering with 200; the backend of
  \<open>a\<close> sends the headers \<open>Content-Type\<close> and \<open>X-A\<close>, the backend of \<open>b\<close> the headers \<open>Date\<close>
  and \<open>X-B\<close>. The merged response carries \<open>X-B\<close> and the merge content type, and not
  \<open>X-A\<close>: every \<^verbatim>\<open>CopyTo\<close> of line 129 replaces what the one before it copied.
\<close>

theorem merged_headers_of_last_candidate:
  "map_option Header (responseOf
     (ReverseProxyHandler (exProxy [exAllow]) [exCandidateAt ''a'', exCandidateAt ''b''] exCtx)) =
   Some [(''X-B'', ''2''), (''Content-Type'', ''application/json; charset=utf-8'')]"
proof -
  let ?a = "(exCandidateAt ''a'')\<lparr>Merge := True, Res := callRes (exBackend exRequest ''a'')\<rparr>"
  let ?b = "(exCandidateAt ''b'')\<lparr>Merge := True, Res := callRes (exBackend exRequest ''b'')\<rparr>"
  let ?results = "[exCandidateAt ''a'', exCandidateAt ''b'']"
  have handler: "ReverseProxyHandler (exProxy [exAllow]) ?results exCtx =
          joinResults True (length [?a, ?b]) exCtx [?a, ?b]"
    using ReverseProxyHandler_fanout [OF _ dispatchAll_a_b] by simp
  have "\<forall>r\<in>set [?a, ?b]. Err r = None \<and> Res r \<noteq> None \<and> Node r \<noteq> None"
    by (simp add: exBackend_values exResponse_def)
  from joinResults_merge [OF this, of exCtx] handler obtain cx' rs' where
    run: "ReverseProxyHandler (exProxy [exAllow]) ?results exCtx = Inr (cx', rs')"
    and head: "Header (Response cx') =
      Add HeaderContentType MergeContentType (foldl copyHeader (Header (Response exCtx)) [?a, ?b])"
    by auto
  have "foldl copyHeader (Header (Response exCtx)) [?a, ?b] = [(''X-B'', ''2'')]"
    by (simp add: copyHeader_def CopyTo_def removeMergeHeaders_def MergeRemoveHeaders_def Del_def
        exBackend_values exResponse_def)
  with run head show ?thesis
    by (simp add: responseOf_def Add_def HeaderContentType_def MergeContentType_def)
qed

section \<open>No nil response on the merge path\<close>

text \<open>
  C10. A dispatch that returns with the candidate's error nil leaves the candidate's
  response not nil. So when every dispatch of a fan-out has returned and no dispatched
  candidate has an error, every dispatched candidate has a response, the header loop of
  lines 125 to 130 runs to its end without a nil dereference, and the candidates it
  hands to the body loop of lines 137 to 147 all have a response.
\<close>

theorem response_not_nil_without_error:
  "(doProxy p cx r = Inr (r', evs) \<and> Err r' = None \<longrightarrow> Res r' \<noteq> None)
   \<and> (dispatchAll p cx results = Inr rs \<and> (\<forall>x\<in>set rs. Err x = None) \<longrightarrow>
        (\<forall>x\<in>set rs. Res x \<noteq> None)
        \<and> (\<exists>cx1 rs1. copyHeaders cx rs = Inr (cx1, rs1) \<and> (\<forall>x\<in>set rs1. Res x \<noteq> None)))"
proof (intro conjI impI)
  assume "doProxy p cx r = Inr (r', evs) \<and> Err r' = None"
  then show "Res r' \<noteq> None"
    using doProxy_Res_when_no_Err by blast
next
  assume join: "dispatchAll p cx results = Inr rs \<and> (\<forall>x\<in>set rs. Err x = None)"
  then show "\<forall>x\<in>set rs. Res x \<noteq> None"
    using dispatchAll_Res_when_no_Err by blast
next
  assume join: "dispatchAll p cx results = Inr rs \<and> (\<forall>x\<in>set rs. Err x = None)"
  then have "\<forall>x\<in>set rs. Res x \<noteq> None"
    using dispatchAll_Res_when_no_Err by blast
  from copyHeaders_ok [OF this, of cx]
  show "\<exists>cx1 rs1. copyHeaders cx rs = Inr (cx1, rs1) \<and> (\<forall>x\<in>set rs1. Res x \<noteq> None)"
    by blast
qed

theorem response_not_nil_without_error_witness:
  "(\<exists>r' evs. doProxy (exProxy [exAllow]) exCtx ((exCandidateAt ''a'')\<lparr>Merge := True\<rparr>) = Inr (r', evs)
      \<and> Err r' = None \<and> Res r' \<noteq> None)
   \<and> (\<exists>rs. dispatchAll (exProxy [exAllow]) exCtx [exCandidateAt ''a'', exCandidateAt ''b''] = Inr rs
      \<and> (\<forall>x\<in>set rs. Err x = None) \<and> (\<forall>x\<in>set rs. Res x \<noteq> None))"
proof -
  let ?a = "(exCandidateAt ''a'')\<lparr>Merge := True, Res := callRes (exBackend exRequest ''a'')\<rparr>"
  let ?b = "(exCandidateAt ''b'')\<lparr>Merge := True, Res := callRes (exBackend exRequest ''b'')\<rparr>"
  let ?evs = "[PreFilter ''allow'', BackendCall (exRequest\<lparr>Path := ''/v1/a''\<rparr>) ''a'',
               PostFilter ''allow'']"
  have one: "doProxy (exProxy [exAllow]) exCtx ((exCandidateAt ''a'')\<lparr>Merge := True\<rparr>) =
               Inr (?a, ?evs)"
    by (simp add: doProxy_example_success [OF exBackend_values(1)] exBackend_values exResponse_def)
  have ok1: "Err ?a = None" by simp
  have ok2: "\<forall>x\<in>set [?a, ?b]. Err x = None" by simp
  note inst = response_not_nil_without_error
    [of "exProxy [exAllow]" exCtx "(exCandidateAt ''a'')\<lparr>Merge := True\<rparr>" "?a" "?evs"
        "[exCandidateAt ''a'', exCandidateAt ''b'']" "[?a, ?b]"]
  from inst one ok1 have "Res ?a \<noteq> None" by blast
  moreover from inst dispatchAll_a_b ok2 have "\<forall>x\<in>set [?a, ?b]. Res x \<noteq> None" by blast
  ultimately show ?thesis
    using one ok1 ok2 dispatchAll_a_b by blast
qed

section \<open>The merged body of the example fan-out\<close>

text \<open>
  The candidates \<open>a\<close> and \<open>b\<close> of C2's scenario: both succeed, and the body written is
  \<^verbatim>\<open>{"a":{"x":1},"b":{"y":2}}\<close> with the status code 200.
\<close>

theorem ReverseProxyHandler_merge_body_witness:
  "\<exists>cx' rs'. ReverseProxyHandler (exProxy [exAllow]) [exCandidateAt ''a'', exCandidateAt ''b''] exCtx =
       Inr (cx', rs')
     \<and> Body (Response cx') =
         ''{'' @ dquote @ ''a'' @ dquote @ '':{'' @ dquote @ ''x'' @ dquote @ '':1},''
           @ dquote @ ''b'' @ dquote @ '':{'' @ dquote @ ''y'' @ dquote @ '':2}}''
     \<and> StatusCode (Response cx') = 200"
proof -
  let ?a = "(exCandidateAt ''a'')\<lparr>Merge := True, Res := callRes (exBackend exRequest ''a'')\<rparr>"
  let ?b = "(exCandidateAt ''b'')\<lparr>Merge := True, Res := callRes (exBackend exRequest ''b'')\<rparr>"
  let ?results = "[exCandidateAt ''a'', exCandidateAt ''b'']"
  have many: "1 < length ?results" by simp
  have ok: "\<forall>r\<in>set [?a, ?b]. Err r = None" by simp
  have named: "\<forall>r\<in>set ?results. Node r \<noteq> None" by simp
  have members: "mergeObject (map memberOf [?a, ?b]) =
         ''{'' @ dquote @ ''a'' @ dquote @ '':{'' @ dquote @ ''x'' @ dquote @ '':1},''
           @ dquote @ ''b'' @ dquote @ '':{'' @ dquote @ ''y'' @ dquote @ '':2}}''"
    by (simp add: memberOf_def mergeObject_def mergeMember_def exBackend_values exResponse_def)
  from ReverseProxyHandler_merge_body [OF many dispatchAll_a_b ok named]
  obtain cx' rs' where
    "ReverseProxyHandler (exProxy [exAllow]) ?results exCtx = Inr (cx', rs')"
    "Body (Response cx') = Body (Response exCtx) @ mergeObject (map memberOf [?a, ?b])"
    "StatusCode (Response cx') = 200"
    by blast
  then show ?thesis
    unfolding members by (simp add: exCtx_def)
qed

section \<open>A post-success filter that stops the chain\<close>

lemma exDenyPost_chains:
  "doPreFilters [exDenyPost] c = (([], StatusOK, None), c, [PreFilter ''deny-post''])"
  "doPostFilters [exDenyPost] c =
     ((''deny-post'', 502, Some (Error ''rejected'')), c, [PostFilter ''deny-post''])"
  by (simp_all add: exDenyPost_def keep_def applyFilter_def)

text \<open>
  The candidate \<open>a\<close> dispatched through the filter \<open>deny-post\<close>: the backend answers with
  200, the filter stops the post-success chain with 502.
\<close>

lemma doProxy_deny_post:
  "doProxy (exProxy [exDenyPost]) exCtx (exCandidateAt ''a'') =
     Inr ((exCandidateAt ''a'')\<lparr>Res := callRes (exBackend exRequest ''a''),
                               Err := Some (Error ''rejected''), Code := 502\<rparr>,
          [PreFilter ''deny-post'', BackendCall (exRequest\<lparr>Path := ''/v1/a''\<rparr>) ''a'',
           PostFilter ''deny-post''])"
proof -
  let ?p = "exProxy [exDenyPost]"
  let ?r = "exCandidateAt ''a''"
  let ?out = "exRequest\<lparr>Path := ''/v1/a''\<rparr>"
  let ?res = "\<lparr>StatusCode = 200, Header = [(''Content-Type'', ''text/plain''), (''X-A'', ''1'')],
               Body = ''{'' @ dquote @ ''x'' @ dquote @ '':1}''\<rparr>"
  let ?c = "(newFilterContext exCtx ?out ?r)\<lparr>startAt := callStart (exBackend ?out ''a''),
              endAt := callEnd (exBackend ?out ''a'')\<rparr>"
  have svr: "Svr ?r = Some \<lparr>Addr = ''a''\<rparr>" by simp
  have rw: "rewriteOutreq exCtx ?r \<lparr>Addr = ''a''\<rparr> = ?out"
    using rewriteOutreq_example [of ?r "''a''" "''/v1/a''"] by simp
  have pre: "doPreFilters (filters ?p) (newFilterContext exCtx (rewriteOutreq exCtx ?r \<lparr>Addr = ''a''\<rparr>) ?r) =
               (([], StatusOK, None), newFilterContext exCtx ?out ?r, [PreFilter ''deny-post''])"
    by (simp add: rw exProxy_def exDenyPost_chains del: doPreFilters.simps)
  have o: "outreq (newFilterContext exCtx ?out ?r) = ?out"
    by (simp add: newFilterContext_def)
  have a: "Addr \<lparr>Addr = ''a''\<rparr> = ''a''" by simp
  have f: "fastHTTPClientDo ?p = exBackend" by (simp add: exProxy_def)
  have e: "callErr (exBackend ?out ''a'') = None" and s: "callRes (exBackend ?out ''a'') = Some ?res"
    by (simp_all add: exBackend_values exResponse_def)
  have lt: "\<not> StatusCode ?res \<ge> StatusInternalServerError"
    by (simp add: StatusInternalServerError_def)
  have post: "doPostFilters (filters ?p) (?c\<lparr>result := (result ?c)\<lparr>Res := Some ?res\<rparr>\<rparr>) =
                ((''deny-post'', 502, Some (Error ''rejected'')),
                 ?c\<lparr>result := (result ?c)\<lparr>Res := Some ?res\<rparr>\<rparr>, [PostFilter ''deny-post''])"
    by (simp add: exProxy_def exDenyPost_chains del: doPostFilters.simps)
  from afterBackend_success [OF e s lt post]
  have after: "afterBackend ?p ?c (exBackend ?out ''a'') =
          Inr (?r\<lparr>Res := Some ?res, Err := Some (Error ''rejected''), Code := 502\<rparr>,
               [PostFilter ''deny-post''])"
    by (simp add: newFilterContext_def)
  have "doProxy ?p exCtx ?r =
          (case afterBackend ?p ?c (exBackend ?out ''a'') of
             Inl pn \<Rightarrow> Inl pn
           | Inr (r', evs') \<Rightarrow> Inr (r', [PreFilter ''deny-post''] @ BackendCall ?out ''a'' # evs'))"
    using doProxy_backend [OF svr pre] unfolding o a f .
  then show ?thesis
    unfolding after by (simp add: exBackend_values exResponse_def)
qed

text \<open>
  C6, as claimed, fails for that dispatch: when it returns, the candidate holds the
  backend's response and also the filter's error and status code.
\<close>

theorem doProxy_outcome_fields_counterexample:
  "map_option Res (dispatched (doProxy (exProxy [exDenyPost]) exCtx (exCandidateAt ''a''))) =
     Some (Some \<lparr>StatusCode = 200, Header = [(''Content-Type'', ''text/plain''), (''X-A'', ''1'')],
                  Body = ''{'' @ dquote @ ''x'' @ dquote @ '':1}''\<rparr>)
   \<and> map_option Err (dispatched (doProxy (exProxy [exDenyPost]) exCtx (exCandidateAt ''a''))) =
     Some (Some (Error ''rejected''))
   \<and> map_option Code (dispatched (doProxy (exProxy [exDenyPost]) exCtx (exCandidateAt ''a''))) =
     Some 502"
  unfolding doProxy_deny_post
  by (simp add: dispatched_def exBackend_values exResponse_def)

text \<open>
  The amended statement at that dispatch: the backend was called and answered 200, the
  filter \<open>deny-post\<close> stopped the post-success chain, and the candidate holds the backend's
  response together with the filter's error and status code.
\<close>

theorem doProxy_outcome_fields_witness:
  "\<exists>r' evs. doProxy (exProxy [exDenyPost]) exCtx (exCandidateAt ''a'') = Inr (r', evs)
     \<and> BackendCall (exRequest\<lparr>Path := ''/v1/a''\<rparr>) ''a'' \<in> set evs
     \<and> (\<exists>e\<in>set evs. isPostFilter e)
     \<and> Res r' = callRes (exBackend (exRequest\<lparr>Path := ''/v1/a''\<rparr>) ''a'')
     \<and> Res r' \<noteq> None
     \<and> Err r' = Some (Error ''rejected'')
     \<and> Code r' = 502"
proof -
  let ?p = "exProxy [exDenyPost]"
  let ?r = "exCandidateAt ''a''"
  let ?out = "exRequest\<lparr>Path := ''/v1/a''\<rparr>"
  let ?res = "\<lparr>StatusCode = 200, Header = [(''Content-Type'', ''text/plain''), (''X-A'', ''1'')],
               Body = ''{'' @ dquote @ ''x'' @ dquote @ '':1}''\<rparr>"
  let ?c1 = "newFilterContext exCtx ?out ?r"
  let ?r' = "(exCandidateAt ''a'')\<lparr>Res := callRes (exBackend exRequest ''a''),
               Err := Some (Error ''rejected''), Code := 502\<rparr>"
  let ?evs = "[PreFilter ''deny-post'', BackendCall ?out ''a'', PostFilter ''deny-post'']"
  have svr: "Svr ?r = Some \<lparr>Addr = ''a''\<rparr>" by simp
  have rw: "rewriteOutreq exCtx ?r \<lparr>Addr = ''a''\<rparr> = ?out"
    using rewriteOutreq_example [of ?r "''a''" "''/v1/a''"] by simp
  have pre: "doPreFilters (filters ?p) (newFilterContext exCtx (rewriteOutreq exCtx ?r \<lparr>Addr = ''a''\<rparr>) ?r) =
               (([], StatusOK, None), ?c1, [PreFilter ''deny-post''])"
    by (simp add: rw exProxy_def exDenyPost_chains del: doPreFilters.simps)
  have e: "callErr (fastHTTPClientDo ?p (outreq ?c1) (Addr \<lparr>Addr = ''a''\<rparr>)) = None"
    and s: "callRes (fastHTTPClientDo ?p (outreq ?c1) (Addr \<lparr>Addr = ''a''\<rparr>)) = Some ?res"
    by (simp_all add: exProxy_def newFilterContext_def exBackend_values exResponse_def)
  have lt: "StatusCode ?res < 500" by simp
  let ?c3 = "postContext ?c1 (fastHTTPClientDo ?p (outreq ?c1) (Addr \<lparr>Addr = ''a''\<rparr>))"
  have post: "doPostFilters (filters ?p) ?c3 =
                ((''deny-post'', 502, Some (Error ''rejected'')), ?c3, [PostFilter ''deny-post''])"
    by (simp add: exProxy_def exDenyPost_chains del: doPostFilters.simps)
  note all = doProxy_outcome_fields [OF doProxy_deny_post]
  have call: "BackendCall ?out ''a'' \<in> set ?evs"
    by simp
  have "isPostFilter (PostFilter ''deny-post'')"
    by (simp add: isPostFilter_def)
  then have ran: "\<exists>e\<in>set ?evs. isPostFilter e"
    by simp
  from all call have "Res ?r' = callRes (fastHTTPClientDo ?p ?out ''a'')"
    by blast
  then have res: "Res ?r' = callRes (exBackend ?out ''a'')"
    by (simp add: exProxy_def)
  from all ran have not_nil: "Res ?r' \<noteq> None"
    by blast
  note stop = all [THEN conjunct2, THEN conjunct2, THEN conjunct2, THEN conjunct2, THEN conjunct2,
      THEN conjunct1, rule_format, OF svr pre e s lt post]
  then have "Err ?r' = Some (Error ''rejected'') \<and> Code ?r' = 502"
    by simp
  with doProxy_deny_post call ran res not_nil show ?thesis
    by blast
qed

section \<open>The URL of the outbound request\<close>

text \<open>
  C5, as claimed, fails when the rewrite is requested and the replacement is empty: the
  candidate has a node with the URL \<^verbatim>\<open>/v1/a\<close>, and the outbound request keeps the path
  \<^verbatim>\<open>/api/users\<close> of the inbound request. The path is substituted in the branch of line 176
  only, which is not taken when \<^verbatim>\<open>NeedRewrite()\<close> holds.
\<close>

theorem rewriteOutreq_counterexample:
  "NeedRewrite (exRewriteTo [])
   \<and> GetRealPath (exRewriteTo []) (Request exCtx) = []
   \<and> Node (exRewriteTo []) = Some \<lparr>AttrName = ''a'', URL = ''/v1/a''\<rparr>
   \<and> Path (Request exCtx) = ''/api/users''
   \<and> Path (rewriteOutreq exCtx (exRewriteTo []) \<lparr>Addr = ''a''\<rparr>) = ''/api/users''"
  by (simp add: exRewriteTo_def rewriteOutreq_def copyRequest_def exCtx_def exRequest_def)

text \<open>
  C5, as amended. The outbound request starts as a copy of the inbound one, and then:
  \<^item> when the rewrite is requested and the replacement is not empty, \<open>SetRequestURI\<close> is
    called on it with the replacement and \<open>SetHost\<close> with the address of the candidate's
    server, and nothing else is done to it: method, headers and body are those of the
    inbound request;
  \<^item> when the rewrite is requested and the replacement is empty, it stays the copy of
    the inbound request, path included;
  \<^item> when the rewrite is not requested and the candidate has a node, \<open>SetPath\<close> is called
    on it with the node's URL and nothing else is done to it: query string, host, method,
    headers and body are those of the inbound request;
  \<^item> when the rewrite is not requested and the candidate has no node, it stays the copy
    of the inbound request.

  The statement is about the calls made and their arguments; what the library reads back
  from a request after such a call is not part of it.
\<close>

theorem rewriteOutreq_cases:
  "(NeedRewrite r \<and> GetRealPath r (Request cx) \<noteq> [] \<longrightarrow>
      rewriteOutreq cx r svr =
        SetHost (Addr svr) (SetRequestURI (GetRealPath r (Request cx)) (copyRequest (Request cx)))
      \<and> Method (rewriteOutreq cx r svr) = Method (Request cx)
      \<and> ReqHeader (rewriteOutreq cx r svr) = ReqHeader (Request cx)
      \<and> ReqBody (rewriteOutreq cx r svr) = ReqBody (Request cx))
   \<and> (NeedRewrite r \<and> GetRealPath r (Request cx) = [] \<longrightarrow>
      rewriteOutreq cx r svr = Request cx)
   \<and> (\<not> NeedRewrite r \<longrightarrow>
      (\<forall>n. Node r = Some n \<longrightarrow>
         rewriteOutreq cx r svr = SetPath (URL n) (copyRequest (Request cx))
         \<and> QueryString (rewriteOutreq cx r svr) = QueryString (Request cx)
         \<and> Host (rewriteOutreq cx r svr) = Host (Request cx)
         \<and> Method (rewriteOutreq cx r svr) = Method (Request cx)
         \<and> ReqHeader (rewriteOutreq cx r svr) = ReqHeader (Request cx)
         \<and> ReqBody (rewriteOutreq cx r svr) = ReqBody (Request cx))
      \<and> (Node r = None \<longrightarrow> rewriteOutreq cx r svr = Request cx))"
proof (intro conjI impI allI)
  assume rewrite: "NeedRewrite r \<and> GetRealPath r (Request cx) \<noteq> []"
  then show out: "rewriteOutreq cx r svr =
      SetHost (Addr svr) (SetRequestURI (GetRealPath r (Request cx)) (copyRequest (Request cx)))"
    by (simp add: rewriteOutreq_def)
  show "Method (rewriteOutreq cx r svr) = Method (Request cx)"
    unfolding out by (simp add: SetHost_def SetRequestURI_def copyRequest_def)
  show "ReqHeader (rewriteOutreq cx r svr) = ReqHeader (Request cx)"
    unfolding out by (simp add: SetHost_def SetRequestURI_def copyRequest_def)
  show "ReqBody (rewriteOutreq cx r svr) = ReqBody (Request cx)"
    unfolding out by (simp add: SetHost_def SetRequestURI_def copyRequest_def)
next
  assume "NeedRewrite r \<and> GetRealPath r (Request cx) = []"
  then show "rewriteOutreq cx r svr = Request cx"
    by (simp add: rewriteOutreq_def copyRequest_def)
next
  fix n assume plain: "\<not> NeedRewrite r" and node: "Node r = Some n"
  then show out: "rewriteOutreq cx r svr = SetPath (URL n) (copyRequest (Request cx))"
    by (simp add: rewriteOutreq_def)
  show "QueryString (rewriteOutreq cx r svr) = QueryString (Request cx)"
    unfolding out by (simp add: SetPath_def copyRequest_def)
  show "Host (rewriteOutreq cx r svr) = Host (Request cx)"
    unfolding out by (simp add: SetPath_def copyRequest_def)
  show "Method (rewriteOutreq cx r svr) = Method (Request cx)"
    unfolding out by (simp add: SetPath_def copyRequest_def)
  show "ReqHeader (rewriteOutreq cx r svr) = ReqHeader (Request cx)"
    unfolding out by (simp add: SetPath_def copyRequest_def)
  show "ReqBody (rewriteOutreq cx r svr) = ReqBody (Request cx)"
    unfolding out by (simp add: SetPath_def copyRequest_def)
next
  assume "\<not> NeedRewrite r" and "Node r = None"
  then show "rewriteOutreq cx r svr = Request cx"
    by (simp add: rewriteOutreq_def copyRequest_def)
qed

text \<open>The cases at the example candidates.\<close>

theorem rewriteOutreq_cases_witness:
  "rewriteOutreq exCtx (exRewriteTo ''/users/7?full=1'') \<lparr>Addr = ''a''\<rparr> =
     SetHost ''a'' (SetRequestURI ''/users/7?full=1'' exRequest)
   \<and> Method (rewriteOutreq exCtx (exRewriteTo ''/users/7?full=1'') \<lparr>Addr = ''a''\<rparr>) = ''GET''
   \<and> ReqHeader (rewriteOutreq exCtx (exRewriteTo ''/users/7?full=1'') \<lparr>Addr = ''a''\<rparr>) =
       [(''Accept'', ''*/*'')]
   \<and> rewriteOutreq exCtx (exRewriteTo []) \<lparr>Addr = ''a''\<rparr> = exRequest
   \<and> rewriteOutreq exCtx (exCandidateAt ''a'') \<lparr>Addr = ''a''\<rparr> = SetPath ''/v1/a'' exRequest
   \<and> QueryString (rewriteOutreq exCtx (exCandidateAt ''a'') \<lparr>Addr = ''a''\<rparr>) = ''?id=7''
   \<and> rewriteOutreq exCtx (exCandidate ''a'' (Some \<lparr>Addr = ''a''\<rparr>)\<lparr>Node := None\<rparr>) \<lparr>Addr = ''a''\<rparr> =
       exRequest"
proof -
  let ?full = "exRewriteTo ''/users/7?full=1''"
  let ?bare = "exCandidate ''a'' (Some \<lparr>Addr = ''a''\<rparr>)\<lparr>Node := None\<rparr>"
  let ?svr = "\<lparr>Addr = ''a''\<rparr>"
  have req: "Request exCtx = exRequest"
    by (simp add: exCtx_def)
  have path: "GetRealPath (exRewriteTo u) q = u" for u q
    by (simp add: exRewriteTo_def)
  have fields: "Method exRequest = ''GET''" "ReqHeader exRequest = [(''Accept'', ''*/*'')]"
    "QueryString exRequest = ''?id=7''"
    by (simp_all add: exRequest_def)
  have full: "NeedRewrite ?full \<and> GetRealPath ?full (Request exCtx) \<noteq> []"
    by (simp add: exRewriteTo_def)
  have empty: "NeedRewrite (exRewriteTo []) \<and> GetRealPath (exRewriteTo []) (Request exCtx) = []"
    by (simp add: exRewriteTo_def)
  have plain: "\<not> NeedRewrite (exCandidateAt ''a'')"
    and node: "Node (exCandidateAt ''a'') = Some \<lparr>AttrName = ''a'', URL = ''/v1/a''\<rparr>"
    by simp_all
  have bare: "\<not> NeedRewrite ?bare" and none: "Node ?bare = None"
    by (simp_all add: exCandidate_def)
  from rewriteOutreq_cases [of ?full exCtx ?svr] full
  have "rewriteOutreq exCtx ?full ?svr =
          SetHost (Addr ?svr) (SetRequestURI (GetRealPath ?full (Request exCtx))
            (copyRequest (Request exCtx)))
        \<and> Method (rewriteOutreq exCtx ?full ?svr) = Method (Request exCtx)
        \<and> ReqHeader (rewriteOutreq exCtx ?full ?svr) = ReqHeader (Request exCtx)"
    by blast
  then have one: "rewriteOutreq exCtx ?full ?svr = SetHost ''a'' (SetRequestURI ''/users/7?full=1'' exRequest)
        \<and> Method (rewriteOutreq exCtx ?full ?svr) = ''GET''
        \<and> ReqHeader (rewriteOutreq exCtx ?full ?svr) = [(''Accept'', ''*/*'')]"
    unfolding req path copyRequest_def fields
    by (simp add: SetHost_def SetRequestURI_def exRequest_def)
  from rewriteOutreq_cases [of "exRewriteTo []" exCtx ?svr] empty
  have "rewriteOutreq exCtx (exRewriteTo []) ?svr = Request exCtx"
    by blast
  then have two: "rewriteOutreq exCtx (exRewriteTo []) ?svr = exRequest"
    unfolding req .
  from rewriteOutreq_cases [of "exCandidateAt ''a''" exCtx ?svr] plain node
  have "rewriteOutreq exCtx (exCandidateAt ''a'') ?svr =
          SetPath (URL \<lparr>AttrName = ''a'', URL = ''/v1/a''\<rparr>) (copyRequest (Request exCtx))
        \<and> QueryString (rewriteOutreq exCtx (exCandidateAt ''a'') ?svr) = QueryString (Request exCtx)"
    by blast
  then have three: "rewriteOutreq exCtx (exCandidateAt ''a'') ?svr = SetPath ''/v1/a'' exRequest
        \<and> QueryString (rewriteOutreq exCtx (exCandidateAt ''a'') ?svr) = ''?id=7''"
    unfolding req copyRequest_def fields
    by (simp add: SetPath_def exRequest_def)
  from rewriteOutreq_cases [of ?bare exCtx ?svr] bare none
  have "rewriteOutreq exCtx ?bare ?svr = Request exCtx"
    by blast
  then have four: "rewriteOutreq exCtx ?bare ?svr = exRequest"
    unfolding req .
  from one two three four show ?thesis
    by blast
qed


end
